theory Spec2Isabelle
  imports Main "HOL-Library.Sublist"
begin

section \<open>Strings\<close>

text \<open>
  The source works on JavaScript strings. They are modelled as \<^typ>\<open>string\<close>. Every
  pattern the code searches for is ASCII, and an ASCII character never occurs inside the
  encoding of another character, so searching for these patterns gives the same answer on
  the model's character lists as on the source's strings.
\<close>

text \<open>\<^verbatim>\<open>s.startsWith(p)\<close>\<close>

fun startsWith :: "string \<Rightarrow> string \<Rightarrow> bool" where
  "startsWith s [] = True"
| "startsWith [] (p # ps) = False"
| "startsWith (c # cs) (p # ps) = (c = p \<and> startsWith cs ps)"

text \<open>\<^verbatim>\<open>s.endsWith(p)\<close>\<close>

definition endsWith :: "string \<Rightarrow> string \<Rightarrow> bool" where
  "endsWith s p = startsWith (rev s) (rev p)"

text \<open>\<^verbatim>\<open>s.includes(p)\<close>: \<open>p\<close> occurs in \<open>s\<close> at some position.\<close>

fun includesStr :: "string \<Rightarrow> string \<Rightarrow> bool" where
  "includesStr [] p = (p = [])"
| "includesStr (c # cs) p = (startsWith (c # cs) p \<or> includesStr cs p)"

text \<open>\<^verbatim>\<open>s.split(sep)\<close> for a one-character separator: never the empty array.\<close>

fun split :: "char \<Rightarrow> string \<Rightarrow> string list" where
  "split sep [] = [[]]"
| "split sep (c # cs) =
     (if c = sep then [] # split sep cs
      else (case split sep cs of
              [] \<Rightarrow> [[c]]
            | w # ws \<Rightarrow> (c # w) # ws))"

text \<open>\<^verbatim>\<open>arr.pop()\<close> read as a value: the last element, \<open>undefined\<close> on the empty array.\<close>

definition pop :: "'a list \<Rightarrow> 'a option" where
  "pop xs = (if xs = [] then None else Some (last xs))"

text \<open>
  \<^verbatim>\<open>path.split('/').pop() || ''\<close>: the text after the last slash. Both \<open>undefined\<close> and
  the empty string are falsy, so both give the empty string.
\<close>

definition fileNameOf :: "string \<Rightarrow> string" where
  "fileNameOf path = (case pop (split CHR ''/'' path) of None \<Rightarrow> [] | Some s \<Rightarrow> s)"

text \<open>\<^verbatim>\<open>c.toLowerCase()\<close> on the letters A to Z; every other character of the model is kept.\<close>

definition lowerChar :: "char \<Rightarrow> char" where
  "lowerChar c =
     (let n = (of_char c :: nat) in if 65 \<le> n \<and> n \<le> 90 then char_of (n + 32) else c)"

definition toLowerCase :: "string \<Rightarrow> string" where
  "toLowerCase s = map lowerChar s"

section \<open>Common types (\<^verbatim>\<open>types/common.ts\<close>)\<close>

datatype FileType = Package | Config | Source | Test | Documentation | Asset | Build | Schema

datatype ImportanceCategory = Critical | Important | Normal | Ignore

record ImportanceScore =
  score :: int
  reasons :: "string list"
  category :: ImportanceCategory

text \<open>
  A \<^verbatim>\<open>Date\<close>: a point in time, given by its time value in milliseconds, or the
  invalid date. \<^verbatim>\<open>getTime()\<close> returns the time value, and \<open>NaN\<close> (here \<open>None\<close>) for
  the invalid date.
\<close>

datatype Date = Date int | InvalidDate

fun getTime :: "Date \<Rightarrow> int option" where
  "getTime (Date n) = Some n"
| "getTime InvalidDate = None"

text \<open>\<^verbatim>\<open>x === y\<close> on two numbers: \<open>NaN\<close> is equal to nothing, not even to itself.\<close>

definition strictEquals :: "int option \<Rightarrow> int option \<Rightarrow> bool" where
  "strictEquals x y = (case x of None \<Rightarrow> False | Some n \<Rightarrow> y = Some n)"

section \<open>File utilities (\<^verbatim>\<open>utils/file-utils.ts\<close>, class \<^verbatim>\<open>DefaultFileUtils\<close>)\<close>

definition packageFilePatterns :: "string list" where
  "packageFilePatterns =
     [''package.json'', ''requirements.txt'', ''pom.xml'', ''build.gradle'',
      ''Cargo.toml'', ''go.mod'', ''composer.json'', ''Gemfile'']"

text \<open>
  The configuration patterns are regular expression literals without character classes
  or repetition: an unanchored literal is a substring test, a literal followed by \<open>$\<close>
  (no multiline flag) is a suffix test, and a group of alternatives before \<open>$\<close> is a
  choice of suffixes. Each entry is the test \<^verbatim>\<open>pattern.test(fileName)\<close> of one literal,
  in the order of the source. The list holds no string, so the \<^verbatim>\<open>typeof pattern === 'string'\<close>
  branch of the source is never taken.
\<close>

definition configFilePatterns :: "(string \<Rightarrow> bool) list" where
  "configFilePatterns =
     [\<lambda>f. endsWith f ''.config.js'' \<or> endsWith f ''.config.ts'' \<or> endsWith f ''.config.json'',
      \<lambda>f. includesStr f ''webpack.config.'',
      \<lambda>f. includesStr f ''vite.config.'',
      \<lambda>f. includesStr f ''rollup.config.'',
      \<lambda>f. includesStr f ''babel.config.'',
      \<lambda>f. includesStr f ''jest.config.'',
      \<lambda>f. includesStr f ''vitest.config.'',
      \<lambda>f. endsWith f ''tsconfig.json'',
      \<lambda>f. includesStr f ''.eslintrc.'',
      \<lambda>f. includesStr f ''.prettierrc'',
      \<lambda>f. includesStr f ''docker-compose.'',
      \<lambda>f. includesStr f ''Dockerfile'',
      \<lambda>f. includesStr f ''.env'',
      \<lambda>f. endsWith f ''.yml'',
      \<lambda>f. endsWith f ''.yaml'']"

definition entryPointPatterns :: "string list" where
  "entryPointPatterns =
     [''index.js'', ''index.ts'', ''main.js'', ''main.ts'', ''app.js'', ''app.ts'',
      ''server.js'', ''server.ts'', ''main.py'', ''app.py'', ''__main__.py'',
      ''Main.java'', ''Program.cs'', ''main.go'']"

text \<open>\<^verbatim>\<open>configFilePatterns.some(pattern => pattern.test(fileName))\<close>\<close>

definition matchesConfigPattern :: "string \<Rightarrow> bool" where
  "matchesConfigPattern fileName = list_ex (\<lambda>pattern. pattern fileName) configFilePatterns"

text \<open>\<^verbatim>\<open>fileName.match(/\.(e1|e2|...)$/)\<close> read as a condition.\<close>

definition hasExtensionIn :: "string \<Rightarrow> string list \<Rightarrow> bool" where
  "hasExtensionIn fileName exts = list_ex (\<lambda>e. endsWith fileName (CHR ''.'' # e)) exts"

definition getFileType :: "string \<Rightarrow> string option \<Rightarrow> FileType" where
  "getFileType path content =
     (let fileName = fileNameOf path in
      if fileName \<in> set packageFilePatterns then Package
      else if matchesConfigPattern fileName then Config
      else if fileName \<in> set entryPointPatterns then Source
      else if includesStr fileName ''.test.'' \<or> includesStr fileName ''.spec.''
              \<or> includesStr path ''/test/'' \<or> includesStr path ''/__tests__/'' then Test
      else if endsWith fileName ''.md'' \<or> endsWith fileName ''.txt''
              \<or> endsWith fileName ''.rst'' then Documentation
      else if hasExtensionIn fileName
                [''png'', ''jpg'', ''jpeg'', ''gif'', ''svg'', ''ico'', ''woff'', ''woff2'',
                 ''ttf'', ''eot''] then Asset
      else if hasExtensionIn fileName
                [''js'', ''ts'', ''py'', ''java'', ''go'', ''rs'', ''cs'', ''php'', ''rb'',
                 ''cpp'', ''c'', ''h''] then Source
      else if hasExtensionIn fileName
                [''json'', ''xml'', ''yml'', ''yaml'', ''toml'', ''ini''] then Config
      else Source)"

text \<open>The category bands at the end of \<^verbatim>\<open>calculateImportanceScore\<close>.\<close>

definition categoryOfScore :: "int \<Rightarrow> ImportanceCategory" where
  "categoryOfScore s =
     (if s \<ge> 80 then Critical
      else if s \<ge> 50 then Important
      else if s \<ge> 20 then Normal
      else Ignore)"

text \<open>
  One \<^verbatim>\<open>if (cond) { score += bonus; reasons.push(reason); }\<close> block of the scorer, on the
  pair of the two local variables.
\<close>

definition addWhen :: "bool \<Rightarrow> int \<Rightarrow> string \<Rightarrow> int \<times> string list \<Rightarrow> int \<times> string list" where
  "addWhen cond bonus reason acc =
     (if cond then (fst acc + bonus, snd acc @ [reason]) else acc)"

definition calculateImportanceScore :: "string \<Rightarrow> string option \<Rightarrow> ImportanceScore" where
  "calculateImportanceScore path content =
     (let fileName = fileNameOf path;
          acc0 = (0, []);
          acc1 = addWhen (fileName \<in> set packageFilePatterns) 100
                   ''Package/dependency file'' acc0;
          acc2 = addWhen (fileName \<in> set entryPointPatterns) 80
                   ''Application entry point'' acc1;
          acc3 = addWhen (matchesConfigPattern fileName) 60 ''Configuration file'' acc2;
          acc4 = addWhen (includesStr fileName ''Dockerfile'' \<or> includesStr fileName ''docker-compose''
                          \<or> includesStr fileName ''.github'' \<or> includesStr fileName ''.gitlab-ci'')
                   70 ''Infrastructure configuration'' acc3;
          acc5 = addWhen (includesStr fileName ''schema'' \<or> includesStr fileName ''openapi''
                          \<or> includesStr fileName ''swagger'')
                   50 ''API schema definition'' acc4;
          acc6 = addWhen (getFileType path None = Source) 30 ''Source code file'' acc5;
          acc7 = (if getFileType path None = Test
                  then (max (fst acc6 - 20) 10, snd acc6 @ [''Test file (lower priority)''])
                  else acc6)
      in \<lparr> score = fst acc7, reasons = snd acc7, category = categoryOfScore (fst acc7) \<rparr>)"

text \<open>
  \<^verbatim>\<open>shouldIgnoreFile\<close>: a pattern ending in a slash is searched in the path, a pattern
  starting with a star is a suffix test on the rest of the pattern, any other pattern is
  searched in the path.
\<close>

definition ignorePaths :: "string list" where
  "ignorePaths =
     [''node_modules/'', ''.git/'', ''dist/'', ''build/'', ''target/'', ''.next/'', ''.nuxt/'',
      ''coverage/'', ''.nyc_output/'', ''__pycache__/'', ''*.pyc'', ''.DS_Store'', ''Thumbs.db'']"

definition ignorePatternMatches :: "string \<Rightarrow> string \<Rightarrow> bool" where
  "ignorePatternMatches path pattern =
     (if endsWith pattern ''/'' then includesStr path pattern
      else if startsWith pattern ''*'' then endsWith path (drop 1 pattern)
      else includesStr path pattern)"

definition shouldIgnoreFile :: "string \<Rightarrow> bool" where
  "shouldIgnoreFile path = list_ex (ignorePatternMatches path) ignorePaths"

definition languageMap :: "(string \<times> string) list" where
  "languageMap =
     [(''js'', ''javascript''), (''ts'', ''typescript''), (''py'', ''python''),
      (''java'', ''java''), (''go'', ''go''), (''rs'', ''rust''), (''cs'', ''csharp''),
      (''php'', ''php''), (''rb'', ''ruby''), (''cpp'', ''cpp''), (''c'', ''c''), (''h'', ''c''),
      (''hpp'', ''cpp''), (''kt'', ''kotlin''), (''scala'', ''scala''), (''clj'', ''clojure''),
      (''hs'', ''haskell''), (''elm'', ''elm''), (''dart'', ''dart''), (''swift'', ''swift'')]"

text \<open>
  \<^verbatim>\<open>getLanguageFromPath\<close>: the lower-cased text after the last dot, looked up in the
  table; an empty extension gives \<open>undefined\<close>. The table is read as its own twenty keys.
\<close>

definition getLanguageFromPath :: "string \<Rightarrow> string option" where
  "getLanguageFromPath path =
     (case map_option toLowerCase (pop (split CHR ''.'' path)) of
        None \<Rightarrow> None
      | Some extension \<Rightarrow> (if extension = [] then None else map_of languageMap extension))"

text \<open>
  \<^verbatim>\<open>replace(/\/+/g, '/')\<close>: each maximal run of slashes is replaced by one slash.
\<close>

function collapseSlashes :: "string \<Rightarrow> string" where
  "collapseSlashes [] = []"
| "collapseSlashes (c # cs) =
     (if c = CHR ''/'' then CHR ''/'' # collapseSlashes (dropWhile (\<lambda>x. x = CHR ''/'') cs)
      else c # collapseSlashes cs)"
  by pat_completeness auto
termination
  by (relation "measure length") (auto simp: less_Suc_eq_le length_dropWhile_le)

text \<open>\<^verbatim>\<open>replace(/\\/g, '/')\<close>: every backslash becomes a slash.\<close>

definition backslashesToSlashes :: "string \<Rightarrow> string" where
  "backslashesToSlashes s = map (\<lambda>c. if c = CHR 0x5C then CHR ''/'' else c) s"

definition normalizePath :: "string \<Rightarrow> string" where
  "normalizePath path = collapseSlashes (backslashesToSlashes path)"


section \<open>Errors (\<^verbatim>\<open>utils/error-handler.ts\<close>)\<close>

datatype ErrorCategory = Analysis | Generation | Validation | Integration | Recommendation

record FallbackOption =
  fallbackType :: string
  fallbackDescription :: string
  fallbackAction :: string

text \<open>
  The only partial result the indexer attaches to an error: three counters.
\<close>

record PartialResults =
  processedFiles :: nat
  totalFiles :: nat
  processingTimeMs :: int

text \<open>
  An \<^verbatim>\<open>InfrastructureError\<close>. A \<^verbatim>\<open>throw\<close> of the source is the left summand of the
  result of the function that throws.
\<close>

record InfrastructureError =
  code :: string
  message :: string
  errorCategory :: ErrorCategory
  recoverable :: bool
  suggestions :: "string list"
  partialResults :: "PartialResults option"
  fallbackOptions :: "FallbackOption list"

definition FILE_INDEXING_FAILED :: string where
  "FILE_INDEXING_FAILED = ''FILE_INDEXING_FAILED''"

text \<open>
  \<^verbatim>\<open>ErrorFactory.createAnalysisError\<close> with every argument given; the callers below write
  out the defaults of the source (\<open>recoverable = false\<close>, no suggestions, no partial
  results, no fallback options) where they leave arguments out.
\<close>

definition createAnalysisError ::
  "string \<Rightarrow> string \<Rightarrow> bool \<Rightarrow> string list \<Rightarrow> PartialResults option \<Rightarrow> FallbackOption list
     \<Rightarrow> InfrastructureError" where
  "createAnalysisError c m r sugg partial fallback =
     \<lparr> code = c, message = m, errorCategory = Analysis, recoverable = r,
       suggestions = sugg, partialResults = partial, fallbackOptions = fallback \<rparr>"

section \<open>Regular expressions of the host\<close>

text \<open>
  Patterns with character classes and repetition are kept as data. What they match is
  decided by the regular-expression engine of the JavaScript host, which is not code of
  this repository: the engine is a parameter of every function that runs such a pattern.
\<close>

datatype regex =
    Lit string
  | Space
  | Word
  | AnyChar
  | OneOf string
  | NoneOf string
  | Seq "regex list"
  | Alt "regex list"
  | Star regex
  | Plus regex

text \<open>
  \<open>rxCompile src\<close> is \<^verbatim>\<open>new RegExp(src)\<close>: the compiled pattern, or the message of the
  \<^verbatim>\<open>SyntaxError\<close> it throws. \<open>rxTest r s\<close> is \<^verbatim>\<open>r.test(s)\<close> for a pattern without
  flags. \<open>rxMatchCount r s\<close> is the number of matches that \<^verbatim>\<open>s.match(r)\<close> returns for
  the pattern with the \<open>g\<close> flag, zero when it returns \<open>null\<close>.
\<close>

record RegExpEngine =
  rxCompile :: "string \<Rightarrow> string + regex"
  rxTest :: "regex \<Rightarrow> string \<Rightarrow> bool"
  rxMatchCount :: "regex \<Rightarrow> string \<Rightarrow> nat"

section \<open>Codebase types (\<^verbatim>\<open>types/codebase.ts\<close>)\<close>

text \<open>The indexer reads \<open>type\<close> as optional.\<close>

record FileEntry =
  path :: string
  content :: string
  fileSize :: int
  declaredType :: "FileType option"

record CodebaseInput =
  files :: "FileEntry list"

record FileIndexEntry =
  entryPath :: string
  entryType :: FileType
  entrySize :: int
  importance :: ImportanceScore
  language :: "string option"
  lastModified :: Date

text \<open>
  \<^verbatim>\<open>CodebaseStatistics\<close> without \<open>complexityScore\<close>, which the source accumulates in
  floating point.
\<close>

record CodebaseStatistics =
  statTotalFiles :: nat
  statTotalSize :: int
  languageDistribution :: "string \<rightharpoonup> nat"
  fileTypeDistribution :: "FileType \<Rightarrow> nat"

text \<open>
  \<^verbatim>\<open>CodebaseIndex\<close>: the sorted entries and the statistics. The priority file map is
  computed from the sorted entries and read by nothing else in the indexer; the AST cache
  and the dependency graph of the index are always empty.
\<close>

record CodebaseIndex =
  fileIndex :: "FileIndexEntry list"
  statistics :: CodebaseStatistics


section \<open>The file indexer (\<^verbatim>\<open>analyzers/file-indexer.ts\<close>, class \<^verbatim>\<open>FileIndexer\<close>)\<close>

text \<open>
  The options after the constructor has filled in the defaults. The custom type rules
  are read as their own keys.
\<close>

record FileIndexerOptions =
  maxFiles :: int
  maxFileSize :: int
  customIgnorePatterns :: "string list"
  includeContent :: bool
  calculateHashes :: bool
  customFileTypeRules :: "string \<rightharpoonup> FileType"

definition defaultOptions :: FileIndexerOptions where
  "defaultOptions =
     \<lparr> maxFiles = 10000, maxFileSize = 10 * 1024 * 1024, customIgnorePatterns = [],
       includeContent = False, calculateHashes = False, customFileTypeRules = Map.empty \<rparr>"

text \<open>
  The readings of the clock during one run: \<^verbatim>\<open>Date.now()\<close> at the start and at the
  end, and \<^verbatim>\<open>new Date()\<close> when the \<open>k\<close>-th entry (from zero) is created.
\<close>

record Clock =
  startTime :: int
  entryTime :: "nat \<Rightarrow> int"
  endTime :: int

record IndexingStatistics =
  totalFilesScanned :: nat
  filesIndexed :: nat
  filesIgnored :: nat
  totalSizeBytes :: int
  indexingTimeMs :: int
  errors :: "string list"
  warnings :: "string list"

record IndexingResult =
  index :: CodebaseIndex
  runStatistics :: IndexingStatistics

text \<open>An integer in a template literal, in decimal.\<close>

function showNat :: "nat \<Rightarrow> string" where
  "showNat n =
     (if n < 10 then [char_of (48 + n)]
      else showNat (n div 10) @ [char_of (48 + n mod 10)])"
  by pat_completeness auto
termination
  by (relation "measure id") auto

definition showInt :: "int \<Rightarrow> string" where
  "showInt i = (if i < 0 then CHR ''-'' # showNat (nat (- i)) else showNat (nat i))"

text \<open>
  \<^verbatim>\<open>filterFiles\<close>: entries with an empty path or a negative size are dropped, the path
  of every other entry is normalised.
\<close>

fun filterFiles :: "FileEntry list \<Rightarrow> FileEntry list" where
  "filterFiles [] = []"
| "filterFiles (file # rest) =
     (if path file = [] then filterFiles rest
      else if fileSize file < 0 then filterFiles rest
      else file\<lparr>path := normalizePath (path file)\<rparr> # filterFiles rest)"

text \<open>\<^verbatim>\<open>pattern.replace(/\*/g, '.*')\<close>\<close>

definition starsToDotStars :: "string \<Rightarrow> string" where
  "starsToDotStars pattern = concat (map (\<lambda>c. if c = CHR ''*'' then ''.*'' else [c]) pattern)"

text \<open>
  \<^verbatim>\<open>customIgnorePatterns.some(...)\<close>: the patterns are tried in order and the first
  match ends the search; a pattern with a star is compiled, and a pattern that does not
  compile throws.
\<close>

fun customIgnoreSome :: "RegExpEngine \<Rightarrow> string \<Rightarrow> string list \<Rightarrow> string + bool" where
  "customIgnoreSome rx p [] = Inr False"
| "customIgnoreSome rx p (pattern # rest) =
     (if includesStr pattern ''*'' then
        (case rxCompile rx (starsToDotStars pattern) of
           Inl msg \<Rightarrow> Inl msg
         | Inr r \<Rightarrow> if rxTest rx r p then Inr True else customIgnoreSome rx p rest)
      else if includesStr p pattern then Inr True
      else customIgnoreSome rx p rest)"

text \<open>The indexer's own \<^verbatim>\<open>shouldIgnoreFile\<close>: the default rules first.\<close>

definition indexerShouldIgnoreFile ::
  "RegExpEngine \<Rightarrow> FileIndexerOptions \<Rightarrow> string \<Rightarrow> string + bool" where
  "indexerShouldIgnoreFile rx opts p =
     (if shouldIgnoreFile p then Inr True
      else customIgnoreSome rx p (customIgnorePatterns opts))"

definition createFileIndexEntry :: "FileIndexerOptions \<Rightarrow> int \<Rightarrow> FileEntry \<Rightarrow> FileIndexEntry" where
  "createFileIndexEntry opts now file =
     (let normalizedPath = normalizePath (path file);
          fileType =
            (case customFileTypeRules opts normalizedPath of
               Some t \<Rightarrow> t
             | None \<Rightarrow>
                 (case declaredType file of
                    Some t \<Rightarrow> t
                  | None \<Rightarrow> getFileType normalizedPath (Some (content file))))
      in \<lparr> entryPath = normalizedPath,
           entryType = fileType,
           entrySize = fileSize file,
           importance = calculateImportanceScore normalizedPath (Some (content file)),
           language = getLanguageFromPath normalizedPath,
           lastModified = Date now \<rparr>)"

text \<open>The three template literals of the loop: what it pushes to \<open>errors\<close> and \<open>warnings\<close>.\<close>

definition errorMessageFor :: "FileEntry \<Rightarrow> string \<Rightarrow> string" where
  "errorMessageFor file msg = ''Error processing file '' @ path file @ '': '' @ msg"

definition sizeWarningFor :: "FileEntry \<Rightarrow> string" where
  "sizeWarningFor file =
     ''File '' @ path file @ '' exceeds maximum size limit ('' @ showInt (fileSize file)
     @ '' bytes)''"

definition limitWarningFor :: "FileIndexerOptions \<Rightarrow> string" where
  "limitWarningFor opts =
     ''Reached maximum file limit ('' @ showInt (maxFiles opts) @ ''), stopping indexing''"

text \<open>The local variables of the loop over the filtered files.\<close>

record LoopState =
  accIndex :: "FileIndexEntry list"
  accTotalSize :: int
  accIgnored :: nat
  accErrors :: "string list"
  accWarnings :: "string list"

text \<open>
  The loop. An exception of one file is caught inside the loop and recorded, and the
  loop goes on with the next file; once the number of entries reaches \<open>maxFiles\<close> the
  loop stops.
\<close>

fun indexLoop ::
  "RegExpEngine \<Rightarrow> FileIndexerOptions \<Rightarrow> Clock \<Rightarrow> FileEntry list \<Rightarrow> LoopState \<Rightarrow> LoopState" where
  "indexLoop rx opts clock [] st = st"
| "indexLoop rx opts clock (file # rest) st =
     (case indexerShouldIgnoreFile rx opts (path file) of
        Inl msg \<Rightarrow>
          indexLoop rx opts clock rest
            (st\<lparr>accErrors := accErrors st @ [errorMessageFor file msg]\<rparr>)
      | Inr True \<Rightarrow>
          indexLoop rx opts clock rest (st\<lparr>accIgnored := accIgnored st + 1\<rparr>)
      | Inr False \<Rightarrow>
          if fileSize file > maxFileSize opts then
            indexLoop rx opts clock rest
              (st\<lparr>accWarnings := accWarnings st @ [sizeWarningFor file],
                  accIgnored := accIgnored st + 1\<rparr>)
          else
            (let st' = st\<lparr>accIndex := accIndex st
                              @ [createFileIndexEntry opts
                                   (entryTime clock (length (accIndex st))) file],
                           accTotalSize := accTotalSize st + fileSize file\<rparr>
             in if int (length (accIndex st')) \<ge> maxFiles opts then
                  st'\<lparr>accWarnings := accWarnings st' @ [limitWarningFor opts]\<rparr>
                else indexLoop rx opts clock rest st'))"

text \<open>
  \<^verbatim>\<open>Array.prototype.sort\<close> with a comparator. The language guarantees a stable sort;
  the algorithm is the host's. It is modelled as the stable insertion sort: an element
  goes before the first later element it does not compare greater than.
\<close>

fun insertBy :: "('a \<Rightarrow> 'a \<Rightarrow> int) \<Rightarrow> 'a \<Rightarrow> 'a list \<Rightarrow> 'a list" where
  "insertBy cmp x [] = [x]"
| "insertBy cmp x (y # ys) = (if cmp x y \<le> 0 then x # y # ys else y # insertBy cmp x ys)"

definition sortBy :: "('a \<Rightarrow> 'a \<Rightarrow> int) \<Rightarrow> 'a list \<Rightarrow> 'a list" where
  "sortBy cmp xs = foldr (insertBy cmp) xs []"

text \<open>The comparator \<^verbatim>\<open>(a, b) => b.importance.score - a.importance.score\<close>.\<close>

definition byScoreDescending :: "FileIndexEntry \<Rightarrow> FileIndexEntry \<Rightarrow> int" where
  "byScoreDescending a b = score (importance b) - score (importance a)"

text \<open>
  \<^verbatim>\<open>calculateStatistics\<close>: one pass over the entries. The type counts start at zero
  for all eight types.
\<close>

definition countEntry :: "CodebaseStatistics \<Rightarrow> FileIndexEntry \<Rightarrow> CodebaseStatistics" where
  "countEntry acc file =
     acc\<lparr> languageDistribution :=
             (case language file of
                None \<Rightarrow> languageDistribution acc
              | Some l \<Rightarrow>
                  (languageDistribution acc)
                    (l \<mapsto> (case languageDistribution acc l of None \<Rightarrow> 0 | Some n \<Rightarrow> n) + 1)),
           fileTypeDistribution :=
             (fileTypeDistribution acc)
               (entryType file := fileTypeDistribution acc (entryType file) + 1),
           statTotalSize := statTotalSize acc + entrySize file \<rparr>"

definition calculateStatistics :: "FileIndexEntry list \<Rightarrow> CodebaseStatistics" where
  "calculateStatistics entries =
     foldl countEntry
       \<lparr> statTotalFiles = length entries, statTotalSize = 0,
         languageDistribution = Map.empty, fileTypeDistribution = (\<lambda>t. 0) \<rparr>
       entries"

text \<open>The entries as the loop leaves them, before they are sorted.\<close>

definition loopResult ::
  "RegExpEngine \<Rightarrow> FileIndexerOptions \<Rightarrow> Clock \<Rightarrow> CodebaseInput \<Rightarrow> LoopState" where
  "loopResult rx opts clock input =
     (let filteredFiles = filterFiles (files input)
      in indexLoop rx opts clock filteredFiles
           \<lparr> accIndex = [], accTotalSize = 0, accIgnored = 0, accErrors = [],
             accWarnings = (if filteredFiles = []
                            then [''No files remaining after filtering''] else []) \<rparr>)"

text \<open>The body of the \<^verbatim>\<open>try\<close> block of \<^verbatim>\<open>indexCodebase\<close>.\<close>

definition indexCodebaseBody ::
  "RegExpEngine \<Rightarrow> FileIndexerOptions \<Rightarrow> Clock \<Rightarrow> CodebaseInput
     \<Rightarrow> InfrastructureError + IndexingResult" where
  "indexCodebaseBody rx opts clock input =
     (if files input = [] then
        Inl (createAnalysisError FILE_INDEXING_FAILED ''No files provided for indexing''
               False [] None [])
      else
        (let st = loopResult rx opts clock input;
             sorted = sortBy byScoreDescending (accIndex st)
         in Inr \<lparr> index = \<lparr> fileIndex = sorted, statistics = calculateStatistics sorted \<rparr>,
                  runStatistics =
                    \<lparr> totalFilesScanned = length (files input),
                      filesIndexed = length sorted,
                      filesIgnored = accIgnored st,
                      totalSizeBytes = accTotalSize st,
                      indexingTimeMs = endTime clock - startTime clock,
                      errors = accErrors st,
                      warnings = accWarnings st \<rparr> \<rparr>))"

text \<open>
  \<^verbatim>\<open>indexCodebase\<close>: whatever the body throws is caught and thrown again as an analysis
  error whose message quotes the message of the caught one.
\<close>

definition indexCodebase ::
  "RegExpEngine \<Rightarrow> FileIndexerOptions \<Rightarrow> Clock \<Rightarrow> CodebaseInput
     \<Rightarrow> InfrastructureError + IndexingResult" where
  "indexCodebase rx opts clock input =
     (case indexCodebaseBody rx opts clock input of
        Inl e \<Rightarrow>
          Inl (createAnalysisError FILE_INDEXING_FAILED
                 (''File indexing failed: '' @ message e)
                 False
                 [''Check file permissions'', ''Verify file structure'',
                  ''Reduce file count or size'']
                 (Some \<lparr> processedFiles = 0, totalFiles = length (files input),
                         processingTimeMs = endTime clock - startTime clock \<rparr>)
                 [])
      | Inr r \<Rightarrow> Inr r)"


section \<open>The priority classifier (\<^verbatim>\<open>analyzers/file-priority-classifier.ts\<close>)\<close>

datatype ProjectType =
  WebApp | ApiService | Library | CliTool | MobileApp | DesktopApp | Microservice | Monorepo

datatype RulePattern = StringPattern string | RegExpPattern regex

record PriorityScoringRule =
  pattern :: RulePattern
  scoreAdjustment :: int
  ruleReason :: string
  ruleCategory :: "ImportanceCategory option"

record PriorityClassifierOptions =
  customScoringRules :: "PriorityScoringRule list"
  projectType :: ProjectType
  primaryLanguage :: string
  framework :: string
  enableContentAnalysis :: bool

definition defaultClassifierOptions :: PriorityClassifierOptions where
  "defaultClassifierOptions =
     \<lparr> customScoringRules = [], projectType = WebApp, primaryLanguage = ''javascript'',
       framework = [], enableContentAnalysis = True \<rparr>"

datatype ArchitecturalRole =
    CoreBusinessLogic | DataAccess | ApiInterface | Configuration | Infrastructure
  | Testing | DocumentationRole | BuildSystem | Deployment | Monitoring | Security
  | Utility | Unknown

record FileCharacteristics =
  isEntryPoint :: bool
  isConfiguration :: bool
  isPackageDefinition :: bool
  isSchema :: bool
  isInfrastructure :: bool
  isTest :: bool
  isDocumentation :: bool
  isGenerated :: bool
  hasComplexLogic :: bool
  hasExternalDependencies :: bool
  isPublicInterface :: bool
  architecturalRole :: ArchitecturalRole

datatype RecommendationType = AnalysisRec | GenerationRec | MonitoringRec | SecurityRec

datatype RecommendationPriority = High | Medium | Low

record ClassificationRecommendation =
  recType :: RecommendationType
  recPriority :: RecommendationPriority
  recDescription :: string
  recAction :: string

record FileClassification =
  clsImportance :: ImportanceScore
  characteristics :: FileCharacteristics
  recommendations :: "ClassificationRecommendation list"

text \<open>
  \<^verbatim>\<open>if (content) ... else ...\<close>: an absent content and the empty string are both
  falsy; \<open>whenContent c f d\<close> is \<open>f\<close> of the content when it is neither, and \<open>d\<close>
  otherwise.
\<close>

definition whenContent :: "string option \<Rightarrow> (string \<Rightarrow> 'a) \<Rightarrow> 'a \<Rightarrow> 'a" where
  "whenContent c f d = (case c of None \<Rightarrow> d | Some s \<Rightarrow> if s = [] then d else f s)"

definition clsIsEntryPoint :: "string \<Rightarrow> string \<Rightarrow> bool" where
  "clsIsEntryPoint fileName p =
     (fileName \<in> set [''index.js'', ''index.ts'', ''main.js'', ''main.ts'', ''app.js'',
                      ''app.ts'', ''server.js'', ''server.ts'', ''main.py'', ''app.py'',
                      ''__main__.py'', ''Main.java'', ''Program.cs'', ''main.go'', ''lib.rs'',
                      ''main.rs'']
      \<or> endsWith fileName ''Application.java'')"

definition clsConfigPatterns :: "(string \<Rightarrow> bool) list" where
  "clsConfigPatterns =
     [\<lambda>f. endsWith f ''.config.js'' \<or> endsWith f ''.config.ts'' \<or> endsWith f ''.config.json'',
      \<lambda>f. includesStr f ''webpack.config.'',
      \<lambda>f. includesStr f ''vite.config.'',
      \<lambda>f. includesStr f ''rollup.config.'',
      \<lambda>f. includesStr f ''babel.config.'',
      \<lambda>f. includesStr f ''jest.config.'',
      \<lambda>f. includesStr f ''vitest.config.'',
      \<lambda>f. endsWith f ''tsconfig.json'',
      \<lambda>f. includesStr f ''.eslintrc.'',
      \<lambda>f. includesStr f ''.prettierrc'',
      \<lambda>f. includesStr f ''.env'',
      \<lambda>f. endsWith f ''.yml'',
      \<lambda>f. endsWith f ''.yaml'',
      \<lambda>f. endsWith f ''.toml'',
      \<lambda>f. endsWith f ''.ini'']"

definition clsIsConfiguration :: "string \<Rightarrow> string \<Rightarrow> FileType option \<Rightarrow> bool" where
  "clsIsConfiguration fileName p t =
     (if t = Some Config then True
      else list_ex (\<lambda>pat. pat fileName) clsConfigPatterns)"

definition clsIsPackageDefinition :: "string \<Rightarrow> bool" where
  "clsIsPackageDefinition fileName =
     (fileName \<in> set [''package.json'', ''requirements.txt'', ''pom.xml'', ''build.gradle'',
                      ''Cargo.toml'', ''go.mod'', ''composer.json'', ''Gemfile'', ''setup.py'',
                      ''pyproject.toml'', ''Package.swift'', ''pubspec.yaml''])"

definition clsIsSchema :: "string \<Rightarrow> string \<Rightarrow> bool" where
  "clsIsSchema fileName p =
     (includesStr fileName ''schema'' \<or> includesStr fileName ''openapi''
      \<or> includesStr fileName ''swagger'' \<or> includesStr p ''/schema/''
      \<or> endsWith fileName ''.graphql'' \<or> endsWith fileName ''.proto''
      \<or> endsWith fileName ''.avsc'')"

definition clsIsInfrastructure :: "string \<Rightarrow> string \<Rightarrow> bool" where
  "clsIsInfrastructure fileName p =
     (includesStr fileName ''Dockerfile'' \<or> includesStr fileName ''docker-compose''
      \<or> fileName = ''.dockerignore'' \<or> includesStr p ''docker/''
      \<or> includesStr p ''.github/'' \<or> includesStr fileName ''.gitlab-ci''
      \<or> includesStr fileName ''jenkins'' \<or> includesStr fileName ''terraform''
      \<or> includesStr fileName ''ansible'')"

definition clsIsTest :: "string \<Rightarrow> string \<Rightarrow> bool" where
  "clsIsTest fileName p =
     (includesStr fileName ''.test.'' \<or> includesStr fileName ''.spec.''
      \<or> includesStr p ''/test/'' \<or> includesStr p ''/__tests__/''
      \<or> includesStr p ''/tests/'' \<or> endsWith fileName ''Test.java''
      \<or> endsWith fileName ''_test.go'')"

definition clsIsDocumentation :: "string \<Rightarrow> string \<Rightarrow> FileType option \<Rightarrow> bool" where
  "clsIsDocumentation fileName p t =
     (if t = Some Documentation then True
      else endsWith fileName ''.md'' \<or> endsWith fileName ''.txt''
           \<or> endsWith fileName ''.rst'' \<or> endsWith fileName ''.adoc''
           \<or> includesStr p ''/docs/'')"

definition clsIsGenerated :: "string \<Rightarrow> string \<Rightarrow> string option \<Rightarrow> bool" where
  "clsIsGenerated fileName p c =
     (if includesStr fileName ''.generated.'' \<or> includesStr fileName ''.gen.''
         \<or> includesStr p ''/generated/'' \<or> includesStr p ''/.next/''
         \<or> includesStr p ''/dist/'' \<or> includesStr p ''/build/'' then True
      else whenContent c
             (\<lambda>s. list_ex (\<lambda>marker. includesStr s marker)
                    [''This file was automatically generated'', ''DO NOT EDIT'',
                     ''Auto-generated'', ''@generated'', ''Code generated by''])
             False)"

text \<open>
  The eight indicators of \<^verbatim>\<open>hasComplexLogic\<close>, each with the \<open>g\<close> flag: a keyword,
  white space, and an identifier or an opening bracket.
\<close>

definition complexityIndicators :: "regex list" where
  "complexityIndicators =
     [Seq [Lit ''class'', Plus Space, Plus Word],
      Seq [Lit ''function'', Plus Space, Plus Word],
      Seq [Lit ''def'', Plus Space, Plus Word],
      Seq [Lit ''if'', Star Space, Lit ''(''],
      Seq [Lit ''for'', Star Space, Lit ''(''],
      Seq [Lit ''while'', Star Space, Lit ''(''],
      Seq [Lit ''switch'', Star Space, Lit ''(''],
      Seq [Lit ''try'', Star Space, Lit ''{'']]"

definition clsHasComplexLogic :: "RegExpEngine \<Rightarrow> string option \<Rightarrow> bool" where
  "clsHasComplexLogic rx c =
     whenContent c
       (\<lambda>s. sum_list (map (\<lambda>r. rxMatchCount rx r s) complexityIndicators) > 10)
       False"

text \<open>The two quote characters of the class \<^verbatim>\<open>['"]\<close>.\<close>

definition quotes :: string where
  "quotes = [CHR 0x27, CHR 0x22]"

definition dependencyPatterns :: "regex list" where
  "dependencyPatterns =
     [Seq [Lit ''import'', Plus Space, Star AnyChar, Lit ''from'', Plus Space, OneOf quotes,
           NoneOf ''.''],
      Seq [Lit ''require'', Star Space, Lit ''('', Star Space, OneOf quotes, NoneOf ''.''],
      Seq [Lit ''from'', Plus Space, Plus Word, Plus Space, Lit ''import''],
      Seq [Lit ''#include'', Star Space, Lit ''<'', Plus Word, Lit ''>'']]"

definition clsHasExternalDependencies :: "RegExpEngine \<Rightarrow> string option \<Rightarrow> bool" where
  "clsHasExternalDependencies rx c =
     whenContent c (\<lambda>s. list_ex (\<lambda>r. rxTest rx r s) dependencyPatterns) False"

definition exportPatterns :: "regex list" where
  "exportPatterns =
     [Seq [Lit ''export'', Plus Space,
           Alt [Lit ''class'', Lit ''function'', Lit ''interface'', Lit ''type'']],
      Lit ''module.exports'',
      Seq [Lit ''public'', Plus Space, Alt [Lit ''class'', Lit ''interface'']],
      Seq [Lit ''__all__'', Star Space, Lit ''='']]"

definition clsIsPublicInterface :: "RegExpEngine \<Rightarrow> string \<Rightarrow> string \<Rightarrow> string option \<Rightarrow> bool" where
  "clsIsPublicInterface rx fileName p c =
     (if includesStr fileName ''api'' \<or> includesStr fileName ''interface''
         \<or> includesStr fileName ''public'' \<or> includesStr p ''/api/''
         \<or> includesStr p ''/public/'' then True
      else whenContent c (\<lambda>s. list_ex (\<lambda>r. rxTest rx r s) exportPatterns) False)"

text \<open>The ordered chain of \<^verbatim>\<open>determineArchitecturalRole\<close>: the first match wins.\<close>

definition determineArchitecturalRole ::
  "string \<Rightarrow> string \<Rightarrow> string option \<Rightarrow> FileType option \<Rightarrow> ArchitecturalRole" where
  "determineArchitecturalRole fileName p c t =
     (if clsIsInfrastructure fileName p then Infrastructure
      else if includesStr fileName ''deploy'' \<or> includesStr p ''/deploy/'' then Deployment
      else if includesStr fileName ''build'' \<or> includesStr fileName ''webpack''
              \<or> includesStr fileName ''rollup'' then BuildSystem
      else if clsIsConfiguration fileName p t then Configuration
      else if clsIsTest fileName p then Testing
      else if clsIsDocumentation fileName p t then DocumentationRole
      else if includesStr fileName ''api'' \<or> includesStr p ''/api/'' \<or> clsIsSchema fileName p
        then ApiInterface
      else if includesStr fileName ''model'' \<or> includesStr fileName ''repository''
              \<or> includesStr fileName ''dao'' \<or> includesStr p ''/models/''
              \<or> includesStr p ''/data/'' then DataAccess
      else if includesStr fileName ''auth'' \<or> includesStr fileName ''security''
              \<or> includesStr fileName ''crypto'' then Security
      else if includesStr fileName ''log'' \<or> includesStr fileName ''monitor''
              \<or> includesStr fileName ''metric'' then Monitoring
      else if includesStr fileName ''util'' \<or> includesStr fileName ''helper''
              \<or> includesStr p ''/utils/'' then Utility
      else if t = Some Source \<and> \<not> clsIsTest fileName p then CoreBusinessLogic
      else Unknown)"

definition analyzeFileCharacteristics ::
  "RegExpEngine \<Rightarrow> string \<Rightarrow> string option \<Rightarrow> FileType option \<Rightarrow> FileCharacteristics" where
  "analyzeFileCharacteristics rx p c t =
     (let fileName = fileNameOf p in
      \<lparr> isEntryPoint = clsIsEntryPoint fileName p,
        isConfiguration = clsIsConfiguration fileName p t,
        isPackageDefinition = clsIsPackageDefinition fileName,
        isSchema = clsIsSchema fileName p,
        isInfrastructure = clsIsInfrastructure fileName p,
        isTest = clsIsTest fileName p,
        isDocumentation = clsIsDocumentation fileName p t,
        isGenerated = clsIsGenerated fileName p c,
        hasComplexLogic = clsHasComplexLogic rx c,
        hasExternalDependencies = clsHasExternalDependencies rx c,
        isPublicInterface = clsIsPublicInterface rx fileName p c,
        architecturalRole = determineArchitecturalRole fileName p c t \<rparr>)"


definition roleScore :: "ArchitecturalRole \<Rightarrow> int" where
  "roleScore r =
     (case r of
        CoreBusinessLogic \<Rightarrow> 80
      | ApiInterface \<Rightarrow> 75
      | DataAccess \<Rightarrow> 65
      | Security \<Rightarrow> 70
      | Configuration \<Rightarrow> 60
      | Infrastructure \<Rightarrow> 55
      | BuildSystem \<Rightarrow> 50
      | Deployment \<Rightarrow> 45
      | Monitoring \<Rightarrow> 40
      | Utility \<Rightarrow> 35
      | Testing \<Rightarrow> 25
      | DocumentationRole \<Rightarrow> 20
      | Unknown \<Rightarrow> 30)"

text \<open>\<^verbatim>\<open>if (cond) score += n\<close> as a summand.\<close>

definition bonus :: "bool \<Rightarrow> int \<Rightarrow> int" where
  "bonus cond n = (if cond then n else 0)"

definition calculateBaseScore ::
  "string \<Rightarrow> string \<Rightarrow> string \<Rightarrow> FileCharacteristics \<Rightarrow> int" where
  "calculateBaseScore p fileName extension ch =
     bonus (isPackageDefinition ch) 100
     + bonus (isEntryPoint ch) 90
     + bonus (isConfiguration ch) 50
     + bonus (isSchema ch) 55
     + bonus (isInfrastructure ch) 50
     + bonus (isPublicInterface ch) 45
     + roleScore (architecturalRole ch)
     + bonus (extension \<in> set [''js'', ''ts'', ''py'', ''java'', ''go'', ''rs'', ''cs'', ''php'',
                                ''rb'']) 30
     - bonus (isTest ch) 15
     - bonus (isGenerated ch) 20
     - bonus (isDocumentation ch \<and> \<not> isSchema ch) 10"

definition getProjectTypeAdjustment :: "PriorityClassifierOptions \<Rightarrow> FileCharacteristics \<Rightarrow> int" where
  "getProjectTypeAdjustment opts ch =
     (case projectType opts of
        ApiService \<Rightarrow> bonus (architecturalRole ch = ApiInterface) 20 + bonus (isSchema ch) 15
      | Library \<Rightarrow> bonus (isPublicInterface ch) 25 + bonus (isDocumentation ch) 10
      | CliTool \<Rightarrow> bonus (isEntryPoint ch) 15 + bonus (isConfiguration ch) 10
      | Microservice \<Rightarrow>
          bonus (isInfrastructure ch) 15 + bonus (architecturalRole ch = Monitoring) 10
      | Monorepo \<Rightarrow>
          bonus (isPackageDefinition ch) 10 + bonus (architecturalRole ch = BuildSystem) 15
      | _ \<Rightarrow> 0)"

definition languageAdjustment :: "string \<Rightarrow> string \<Rightarrow> int" where
  "languageAdjustment lang fileName =
     (if lang = ''typescript'' then
        bonus (endsWith fileName ''.d.ts'') 15 + bonus (fileName = ''tsconfig.json'') 10
      else if lang = ''python'' then
        bonus (fileName = ''__init__.py'') 15
        + bonus (fileName = ''setup.py'' \<or> fileName = ''pyproject.toml'') 10
      else if lang = ''java'' then
        bonus (endsWith fileName ''Application.java'') 15
        + bonus (fileName = ''pom.xml'' \<or> fileName = ''build.gradle'') 10
      else if lang = ''go'' then
        bonus (fileName = ''main.go'') 15 + bonus (fileName = ''go.mod'') 10
      else 0)"

definition frameworkAdjustment :: "string \<Rightarrow> string \<Rightarrow> int" where
  "frameworkAdjustment fw fileName =
     (if fw = [] then 0
      else if toLowerCase fw = ''react'' then
        bonus (includesStr fileName ''App.'' \<or> includesStr fileName ''index.'') 10
      else if toLowerCase fw = ''express'' then
        bonus (includesStr fileName ''server.'' \<or> includesStr fileName ''app.'') 10
      else if toLowerCase fw = ''spring'' then
        bonus (includesStr fileName ''Application.java'') 15
        + bonus (includesStr fileName ''application.properties''
                 \<or> includesStr fileName ''application.yml'') 10
      else if toLowerCase fw = ''django'' then
        bonus (fileName = ''settings.py'' \<or> fileName = ''urls.py'') 10
      else 0)"

definition getLanguageFrameworkAdjustment ::
  "PriorityClassifierOptions \<Rightarrow> string \<Rightarrow> string option \<Rightarrow> int" where
  "getLanguageFrameworkAdjustment opts p c =
     (let fileName = fileNameOf p
      in languageAdjustment (primaryLanguage opts) fileName
         + frameworkAdjustment (framework opts) fileName)"

definition ruleMatches :: "RegExpEngine \<Rightarrow> string \<Rightarrow> PriorityScoringRule \<Rightarrow> bool" where
  "ruleMatches rx p rule =
     (case pattern rule of
        StringPattern s \<Rightarrow> includesStr p s
      | RegExpPattern r \<Rightarrow> rxTest rx r p)"

text \<open>Every matching rule adds its adjustment.\<close>

definition applyCustomScoringRules ::
  "RegExpEngine \<Rightarrow> PriorityClassifierOptions \<Rightarrow> string \<Rightarrow> string option \<Rightarrow> int" where
  "applyCustomScoringRules rx opts p c =
     sum_list (map (\<lambda>rule. bonus (ruleMatches rx p rule) (scoreAdjustment rule))
                 (customScoringRules opts))"

definition functionPattern :: regex where
  "functionPattern =
     Seq [Alt [Lit ''function'', Lit ''def'', Lit ''func'', Lit ''fn'', Lit ''public'',
               Lit ''private'', Lit ''protected''],
          Plus Space, Plus Word]"

definition classPattern :: regex where
  "classPattern =
     Seq [Alt [Lit ''class'', Lit ''interface'', Lit ''struct'', Lit ''enum''],
          Plus Space, Plus Word]"

definition importPattern :: regex where
  "importPattern =
     Seq [Alt [Lit ''import'', Lit ''require'', Lit ''from'', Lit ''#include'', Lit ''use''],
          Plus Space]"

definition analyzeContentComplexity :: "RegExpEngine \<Rightarrow> string \<Rightarrow> string \<Rightarrow> int" where
  "analyzeContentComplexity rx c extension =
     (let lineCount = length (split (CHR 0x0A) c);
          c0 = (if lineCount > 500 then 15
                else if lineCount > 200 then 10
                else if lineCount > 100 then 5
                else 0);
          c1 = (if extension \<in> set [''js'', ''ts'', ''py'', ''java'', ''go'', ''rs'', ''cs''] then
                  (let fn = rxMatchCount rx functionPattern c;
                       cl = rxMatchCount rx classPattern c;
                       im = rxMatchCount rx importPattern c
                   in (if fn > 20 then 10 else if fn > 10 then 5 else 0)
                      + (if cl > 5 then 10 else if cl > 2 then 5 else 0)
                      + (if im > 20 then 5 else 0))
                else 0)
      in min (c0 + c1) 25)"

text \<open>
  \<^verbatim>\<open>reasons.push(r)\<close> under a condition, as the list of what is pushed.
\<close>

definition pushWhen :: "bool \<Rightarrow> 'a \<Rightarrow> 'a list" where
  "pushWhen cond r = (if cond then [r] else [])"

definition clsCategoryOfScore :: "int \<Rightarrow> ImportanceCategory" where
  "clsCategoryOfScore s =
     (if s \<ge> 100 then Critical
      else if s \<ge> 60 then Important
      else if s \<ge> 20 then Normal
      else Ignore)"

definition determineCategory ::
  "int \<Rightarrow> FileCharacteristics \<Rightarrow> ImportanceCategory \<times> string list" where
  "determineCategory s ch =
     (clsCategoryOfScore s,
      pushWhen (isPackageDefinition ch) ''Package/dependency definition''
      @ pushWhen (isEntryPoint ch) ''Application entry point''
      @ pushWhen (isConfiguration ch) ''Configuration file''
      @ pushWhen (isSchema ch) ''Schema/API definition''
      @ pushWhen (isInfrastructure ch) ''Infrastructure configuration''
      @ pushWhen (isPublicInterface ch) ''Public API interface''
      @ pushWhen (hasComplexLogic ch) ''Contains complex business logic''
      @ pushWhen (hasExternalDependencies ch) ''Has external dependencies''
      @ (case architecturalRole ch of
           CoreBusinessLogic \<Rightarrow> [''Core business logic'']
         | ApiInterface \<Rightarrow> [''API interface'']
         | DataAccess \<Rightarrow> [''Data access layer'']
         | Security \<Rightarrow> [''Security component'']
         | _ \<Rightarrow> [])
      @ pushWhen (isTest ch) ''Test file (lower priority)''
      @ pushWhen (isGenerated ch) ''Generated file (lower priority)''
      @ pushWhen (isDocumentation ch \<and> \<not> isSchema ch) ''Documentation file'')"

definition generateRecommendations ::
  "FileCharacteristics \<Rightarrow> ImportanceScore \<Rightarrow> ClassificationRecommendation list" where
  "generateRecommendations ch imp =
     pushWhen (isEntryPoint ch \<or> isPackageDefinition ch)
       \<lparr> recType = AnalysisRec, recPriority = High,
         recDescription = ''Critical file for understanding application structure'',
         recAction = ''Analyze first for tech stack detection'' \<rparr>
     @ pushWhen (isSchema ch)
       \<lparr> recType = GenerationRec, recPriority = High,
         recDescription = ''API schema affects infrastructure requirements'',
         recAction = ''Use for API gateway and service mesh configuration'' \<rparr>
     @ pushWhen (isInfrastructure ch)
       \<lparr> recType = AnalysisRec, recPriority = Medium,
         recDescription = ''Existing infrastructure configuration'',
         recAction = ''Analyze for current deployment patterns'' \<rparr>
     @ pushWhen (hasComplexLogic ch)
       \<lparr> recType = MonitoringRec, recPriority = Medium,
         recDescription = ''Complex logic may need monitoring'',
         recAction = ''Consider performance monitoring and logging'' \<rparr>
     @ pushWhen (architecturalRole ch = Security)
       \<lparr> recType = SecurityRec, recPriority = High,
         recDescription = ''Security-related component'',
         recAction = ''Apply security best practices in generated configs'' \<rparr>"

text \<open>
  \<^verbatim>\<open>fileName.split('.').pop()?.toLowerCase() || ''\<close>
\<close>

definition extensionOf :: "string \<Rightarrow> string" where
  "extensionOf fileName =
     (case map_option toLowerCase (pop (split CHR ''.'' fileName)) of
        None \<Rightarrow> []
      | Some e \<Rightarrow> e)"

text \<open>
  \<^verbatim>\<open>classifyFile\<close>: the category is read from the score before it is clamped, the
  score is stored clamped to 0..200.
\<close>

definition classifyFile ::
  "RegExpEngine \<Rightarrow> PriorityClassifierOptions \<Rightarrow> string \<Rightarrow> string option \<Rightarrow> FileType option
     \<Rightarrow> FileClassification" where
  "classifyFile rx opts p c t =
     (let fileName = fileNameOf p;
          fileExtension = extensionOf fileName;
          ch = analyzeFileCharacteristics rx p c t;
          s0 = calculateBaseScore p fileName fileExtension ch;
          s1 = s0 + getProjectTypeAdjustment opts ch;
          s2 = s1 + getLanguageFrameworkAdjustment opts p c;
          s3 = s2 + applyCustomScoringRules rx opts p c;
          s4 = (if enableContentAnalysis opts
                then whenContent c (\<lambda>s. s3 + analyzeContentComplexity rx s fileExtension) s3
                else s3);
          cr = determineCategory s4 ch;
          imp = \<lparr> score = max 0 (min 200 s4), reasons = snd cr, category = fst cr \<rparr>
      in \<lparr> clsImportance = imp, characteristics = ch,
           recommendations = generateRecommendations ch imp \<rparr>)"

section \<open>The cache (\<^verbatim>\<open>utils/cache.ts\<close>, class \<^verbatim>\<open>InMemoryCacheManager\<close>)\<close>

text \<open>
  The state of the cache manager. The type of an AST and of an analysis result are
  parameters.
\<close>

record 'ast AstCacheEntry =
  ast :: 'ast
  cachedLastModified :: Date
  astTimestamp :: Date

record 'res AnalysisCacheEntry =
  result :: 'res
  analysisTimestamp :: Date

record ('ast, 'res) CacheState =
  astCache :: "string \<rightharpoonup> 'ast AstCacheEntry"
  analysisCache :: "string \<rightharpoonup> 'res AnalysisCacheEntry"
  totalRequests :: nat
  totalHits :: nat

text \<open>
  \<^verbatim>\<open>getCachedAST\<close>: the request is counted, and the stored AST is returned when the
  path has an entry whose modification time has the time value of the one asked for.
\<close>

definition getCachedAST ::
  "string \<Rightarrow> Date \<Rightarrow> ('ast, 'res) CacheState \<Rightarrow> 'ast option \<times> ('ast, 'res) CacheState" where
  "getCachedAST filePath modified st =
     (let st1 = st\<lparr>totalRequests := totalRequests st + 1\<rparr>
      in case astCache st1 filePath of
           None \<Rightarrow> (None, st1)
         | Some cached \<Rightarrow>
             if strictEquals (getTime (cachedLastModified cached)) (getTime modified)
             then (Some (ast cached), st1\<lparr>totalHits := totalHits st1 + 1\<rparr>)
             else (None, st1))"

text \<open>\<^verbatim>\<open>setCachedAST\<close>; \<open>now\<close> is the reading of the clock at the call.\<close>

definition setCachedAST ::
  "string \<Rightarrow> 'ast \<Rightarrow> Date \<Rightarrow> int \<Rightarrow> ('ast, 'res) CacheState \<Rightarrow> ('ast, 'res) CacheState" where
  "setCachedAST filePath a modified now st =
     st\<lparr>astCache := (astCache st)
           (filePath \<mapsto>
              \<lparr> ast = a, cachedLastModified = modified, astTimestamp = Date now \<rparr>)\<rparr>"


text \<open>The state of a new \<^verbatim>\<open>InMemoryCacheManager\<close>.\<close>

definition emptyCache :: "('ast, 'res) CacheState" where
  "emptyCache =
     \<lparr> astCache = Map.empty, analysisCache = Map.empty, totalRequests = 0, totalHits = 0 \<rparr>"

section \<open>Notions used in the statements\<close>

text \<open>An input file with its path normalised, as \<^verbatim>\<open>filterFiles\<close> leaves it.\<close>

definition normalized :: "FileEntry \<Rightarrow> FileEntry" where
  "normalized f = f\<lparr>path := normalizePath (path f)\<rparr>"

text \<open>
  The entries that \<^verbatim>\<open>createFileIndexEntry\<close> builds from the files \<open>gs\<close>, in their
  order, when the first of them is the \<open>n\<close>-th entry of the run.
\<close>

definition entriesOf ::
  "FileIndexerOptions \<Rightarrow> Clock \<Rightarrow> nat \<Rightarrow> FileEntry list \<Rightarrow> FileIndexEntry list" where
  "entriesOf opts clock n gs =
     map (\<lambda>(k, f). createFileIndexEntry opts (entryTime clock k) f) (enumerate n gs)"

text \<open>A file that the loop neither ignores nor finds too big, and that raises nothing.\<close>

definition admitted :: "RegExpEngine \<Rightarrow> FileIndexerOptions \<Rightarrow> FileEntry \<Rightarrow> bool" where
  "admitted rx opts f =
     (indexerShouldIgnoreFile rx opts (path f) = Inr False \<and> \<not> fileSize f > maxFileSize opts)"

text \<open>A file that one round of the loop adds to \<open>filesIgnored\<close>.\<close>

definition countedAsIgnored :: "RegExpEngine \<Rightarrow> FileIndexerOptions \<Rightarrow> FileEntry \<Rightarrow> bool" where
  "countedAsIgnored rx opts f =
     (indexerShouldIgnoreFile rx opts (path f) = Inr True
      \<or> (indexerShouldIgnoreFile rx opts (path f) = Inr False \<and> fileSize f > maxFileSize opts))"

text \<open>What examining a file adds to \<open>errors\<close>: one entry when the ignore check raises.\<close>

definition raisedErrors :: "RegExpEngine \<Rightarrow> FileIndexerOptions \<Rightarrow> FileEntry \<Rightarrow> string list" where
  "raisedErrors rx opts f =
     (case indexerShouldIgnoreFile rx opts (path f) of
        Inl msg \<Rightarrow> [errorMessageFor f msg]
      | Inr b \<Rightarrow> [])"

text \<open>A file that is not ignored and is over the size limit.\<close>

definition tooBig :: "RegExpEngine \<Rightarrow> FileIndexerOptions \<Rightarrow> FileEntry \<Rightarrow> bool" where
  "tooBig rx opts f =
     (indexerShouldIgnoreFile rx opts (path f) = Inr False \<and> fileSize f > maxFileSize opts)"

text \<open>
  The limit is reached on the files \<open>d\<close>, with \<open>n\<close> entries in the index before them:
  at least one of them is admitted, and with the admitted ones the index holds
  \<open>maxFiles\<close> entries or more.
\<close>

definition limitReached ::
  "RegExpEngine \<Rightarrow> FileIndexerOptions \<Rightarrow> nat \<Rightarrow> FileEntry list \<Rightarrow> bool" where
  "limitReached rx opts n d =
     (0 < length (filter (admitted rx opts) d)
      \<and> maxFiles opts \<le> int (n + length (filter (admitted rx opts) d)))"

text \<open>
  The files that a run examines: the shortest prefix of the files on which the limit is
  reached, and all the files when it is reached on none.
\<close>

definition examinedFiles ::
  "RegExpEngine \<Rightarrow> FileIndexerOptions \<Rightarrow> nat \<Rightarrow> FileEntry list \<Rightarrow> FileEntry list" where
  "examinedFiles rx opts n fs =
     (case filter (limitReached rx opts n) (prefixes fs) of
        [] \<Rightarrow> fs
      | d # ds \<Rightarrow> d)"

text \<open>
  The characters of \<open>s\<close> that are not a slash right after a slash: of every run of
  slashes the first one stays.
\<close>

definition firstOfEachSlashRun :: "string \<Rightarrow> string" where
  "firstOfEachSlashRun s =
     map snd (filter (\<lambda>(prev, c). \<not> (prev = Some CHR ''/'' \<and> c = CHR ''/''))
                (zip (None # map Some s) s))"

section \<open>Example inputs\<close>

text \<open>
  An engine for the examples: a pattern source with an opening bracket does not compile
  (the examples use \<^verbatim>\<open>.*(\<close>, an unterminated group), any other source compiles to a
  literal, and a literal is tested as a substring.
\<close>

definition sampleEngine :: RegExpEngine where
  "sampleEngine =
     \<lparr> rxCompile = (\<lambda>src. if includesStr src ''('' then Inl ''Unterminated group''
                           else Inr (Lit src)),
       rxTest = (\<lambda>r s. case r of Lit l \<Rightarrow> includesStr s l | _ \<Rightarrow> False),
       rxMatchCount = (\<lambda>r s. 0) \<rparr>"

definition sampleClock :: Clock where
  "sampleClock = \<lparr> startTime = 1000, entryTime = (\<lambda>k. 1000 + int k), endTime = 1010 \<rparr>"

definition packageJsonContent :: string where
  \<open>packageJsonContent = ''{"name":"x"}''\<close>

definition packageJson :: FileEntry where
  "packageJson =
     \<lparr> path = ''package.json'', content = packageJsonContent, fileSize = 100,
       declaredType = Some Package \<rparr>"

definition indexTs :: FileEntry where
  "indexTs =
     \<lparr> path = ''src/index.ts'', content = ''console.log(1)'', fileSize = 50,
       declaredType = Some Source \<rparr>"

definition mainTs :: FileEntry where
  "mainTs =
     \<lparr> path = ''src/main.ts'', content = ''run()'', fileSize = 45, declaredType = None \<rparr>"

definition helperTs :: FileEntry where
  "helperTs =
     \<lparr> path = ''src/utils/helper.ts'', content = ''export function helper() {}'',
       fileSize = 75, declaredType = None \<rparr>"

definition readme :: FileEntry where
  "readme =
     \<lparr> path = ''README.md'', content = ''# Test Project'', fileSize = 40,
       declaredType = None \<rparr>"

definition nodeModulesFile :: FileEntry where
  "nodeModulesFile =
     \<lparr> path = ''node_modules/some-package/index.js'', content = ''module.exports = {};'',
       fileSize = 25, declaredType = Some Source \<rparr>"

definition buttonTest :: FileEntry where
  "buttonTest =
     \<lparr> path = ''src/components/Button.test.ts'', content = ''describe()'', fileSize = 35,
       declaredType = None \<rparr>"

definition hugeFile :: FileEntry where
  "hugeFile =
     \<lparr> path = ''assets/video.bin'', content = ''0'', fileSize = 20000000,
       declaredType = None \<rparr>"

definition sampleInput :: CodebaseInput where
  "sampleInput =
     \<lparr> files = [readme, helperTs, indexTs, packageJson, nodeModulesFile, mainTs, hugeFile,
                buttonTest] \<rparr>"

text \<open>Options whose only custom ignore pattern does not compile.\<close>

definition brokenPatternOptions :: FileIndexerOptions where
  "brokenPatternOptions = defaultOptions\<lparr>customIgnorePatterns := [''*('']\<rparr>"

text \<open>One valid file, then a file under \<^verbatim>\<open>node_modules/\<close>, with room for one entry.\<close>

definition cutoffOptions :: FileIndexerOptions where
  "cutoffOptions = defaultOptions\<lparr>maxFiles := 1\<rparr>"

definition cutoffInput :: CodebaseInput where
  "cutoffInput = \<lparr> files = [indexTs, nodeModulesFile] \<rparr>"

text \<open>One valid file, then a file under \<^verbatim>\<open>node_modules/\<close> with a negative size.\<close>

definition negativeSizeInput :: CodebaseInput where
  "negativeSizeInput = \<lparr> files = [indexTs, nodeModulesFile\<lparr>fileSize := - 1\<rparr>] \<rparr>"

text \<open>Three valid files, two of them with the same score.\<close>

definition tieInput :: CodebaseInput where
  "tieInput = \<lparr> files = [helperTs, indexTs, mainTs] \<rparr>"

text \<open>Three valid files without a declared type.\<close>

definition undeclaredInput :: CodebaseInput where
  "undeclaredInput = \<lparr> files = [readme, helperTs, mainTs] \<rparr>"

text \<open>
  A file under \<^verbatim>\<open>node_modules/\<close>, a file over the size limit and two valid files, with
  room for one entry.
\<close>

definition atLimitInput :: CodebaseInput where
  "atLimitInput = \<lparr> files = [nodeModulesFile, hugeFile, indexTs, mainTs] \<rparr>"

section \<open>Substrings\<close>

lemma startsWith_iff: "startsWith s p = (\<exists>b. s = p @ b)"
  by (induction s p rule: startsWith.induct) auto

lemma includesStr_iff: "includesStr s p = (\<exists>a b. s = a @ p @ b)"
proof (induction s)
  case Nil
  then show ?case by auto
next
  case (Cons c cs)
  have "(\<exists>a b. c # cs = a @ p @ b) = ((\<exists>b. c # cs = p @ b) \<or> (\<exists>a b. cs = a @ p @ b))"
  proof
    assume "\<exists>a b. c # cs = a @ p @ b"
    then obtain a b where ab: "c # cs = a @ p @ b" by blast
    show "(\<exists>b. c # cs = p @ b) \<or> (\<exists>a b. cs = a @ p @ b)"
    proof (cases a)
      case Nil
      with ab show ?thesis by auto
    next
      case (Cons x a')
      with ab have "cs = a' @ p @ b" by simp
      then show ?thesis by blast
    qed
  next
    assume "(\<exists>b. c # cs = p @ b) \<or> (\<exists>a b. cs = a @ p @ b)"
    then show "\<exists>a b. c # cs = a @ p @ b"
    proof
      assume "\<exists>b. c # cs = p @ b"
      then obtain b where "c # cs = [] @ p @ b" by auto
      then show ?thesis by blast
    next
      assume "\<exists>a b. cs = a @ p @ b"
      then obtain a b where "c # cs = (c # a) @ p @ b" by auto
      then show ?thesis by blast
    qed
  qed
  with Cons show ?case by (simp add: startsWith_iff)
qed

section \<open>Path normalisation\<close>

lemma set_collapseSlashes: "set (collapseSlashes s) \<subseteq> set s"
proof (induction s rule: collapseSlashes.induct)
  case 1
  then show ?case by simp
next
  case (2 c cs)
  have "set (dropWhile (\<lambda>x. x = CHR ''/'') cs) \<subseteq> set cs"
    by (rule set_dropWhileD [THEN subsetI])
  with 2 show ?case by auto
qed

lemma backslashesToSlashes_no_backslash: "CHR 0x5C \<notin> set (backslashesToSlashes s)"
  by (auto simp: backslashesToSlashes_def)

lemma backslashesToSlashes_id: "CHR 0x5C \<notin> set s \<Longrightarrow> backslashesToSlashes s = s"
  by (induction s) (auto simp: backslashesToSlashes_def)

lemma normalizePath_no_backslash: "CHR 0x5C \<notin> set (normalizePath p)"
  using set_collapseSlashes [of "backslashesToSlashes p"] backslashesToSlashes_no_backslash [of p]
  by (auto simp: normalizePath_def)

lemma collapseSlashes_not_slash_first:
  "s = [] \<or> hd s \<noteq> CHR ''/'' \<Longrightarrow> \<not> startsWith (collapseSlashes s) ''/''"
  by (cases s) auto

lemma dropWhile_slash_first:
  "dropWhile (\<lambda>x. x = CHR ''/'') cs = [] \<or> hd (dropWhile (\<lambda>x. x = CHR ''/'') cs) \<noteq> CHR ''/''"
  using hd_dropWhile [of "\<lambda>x. x = CHR ''/''" cs] by blast

lemma startsWith_slash2: "startsWith (c # r) ''//'' = (c = CHR ''/'' \<and> startsWith r ''/'')"
  by (cases r) auto

lemma collapseSlashes_no_double: "\<not> includesStr (collapseSlashes s) ''//''"
proof (induction s rule: collapseSlashes.induct)
  case 1
  then show ?case by simp
next
  case (2 c cs)
  show ?case
  proof (cases "c = CHR ''/''")
    case True
    let ?r = "dropWhile (\<lambda>x. x = CHR ''/'') cs"
    have "\<not> startsWith (collapseSlashes ?r) ''/''"
      using dropWhile_slash_first [of cs] by (rule collapseSlashes_not_slash_first)
    moreover have "\<not> includesStr (collapseSlashes ?r) ''//''"
      using 2(1) True by simp
    ultimately show ?thesis using True by (simp add: startsWith_slash2)
  next
    case False
    then show ?thesis using 2(2) by simp
  qed
qed

lemma collapseSlashes_id: "\<not> includesStr s ''//'' \<Longrightarrow> collapseSlashes s = s"
proof (induction s rule: collapseSlashes.induct)
  case 1
  then show ?case by simp
next
  case (2 c cs)
  show ?case
  proof (cases "c = CHR ''/''")
    case True
    from 2(3) True have ns: "\<not> startsWith cs ''/''" and ni: "\<not> includesStr cs ''//''"
      by (simp_all add: startsWith_slash2)
    from ns have "dropWhile (\<lambda>x. x = CHR ''/'') cs = cs"
      by (cases cs) auto
    with 2(1) True ni show ?thesis by simp
  next
    case False
    with 2(2,3) show ?thesis by simp
  qed
qed

lemma normalizePath_no_double: "\<not> includesStr (normalizePath p) ''//''"
  by (simp add: normalizePath_def collapseSlashes_no_double)

lemma normalizePath_idem: "normalizePath (normalizePath p) = normalizePath p"
proof -
  have "normalizePath (normalizePath p) = collapseSlashes (normalizePath p)"
    using normalizePath_no_backslash [of p]
    by (simp add: normalizePath_def backslashesToSlashes_id [unfolded normalizePath_def])
  with normalizePath_no_double [of p] show ?thesis
    by (simp add: collapseSlashes_id)
qed

lemma filter_dropWhile_slashes:
  "filter (\<lambda>c. c \<noteq> CHR ''/'') (dropWhile (\<lambda>x. x = CHR ''/'') cs) = filter (\<lambda>c. c \<noteq> CHR ''/'') cs"
  by (induction cs) auto

lemma filter_collapseSlashes:
  "filter (\<lambda>c. c \<noteq> CHR ''/'') (collapseSlashes s) = filter (\<lambda>c. c \<noteq> CHR ''/'') s"
  by (induction s rule: collapseSlashes.induct) (auto simp: filter_dropWhile_slashes)

lemma normalizePath_keeps_other_characters:
  "filter (\<lambda>c. c \<noteq> CHR ''/'') (normalizePath p)
     = filter (\<lambda>c. c \<noteq> CHR ''/'' \<and> c \<noteq> CHR 0x5C) p"
  unfolding normalizePath_def filter_collapseSlashes
  by (induction p) (auto simp: backslashesToSlashes_def)

text \<open>Keeping the first slash of every run, position by position.\<close>

lemma keepers_collapse:
  "(prev \<noteq> Some CHR ''/'' \<longrightarrow>
      map snd (filter (\<lambda>(b, c). \<not> (b = Some CHR ''/'' \<and> c = CHR ''/''))
                 (zip (prev # map Some s) s)) = collapseSlashes s)
   \<and> map snd (filter (\<lambda>(b, c). \<not> (b = Some CHR ''/'' \<and> c = CHR ''/''))
                 (zip (Some CHR ''/'' # map Some s) s))
       = collapseSlashes (dropWhile (\<lambda>x. x = CHR ''/'') s)"
proof (induction s arbitrary: prev)
  case Nil
  show ?case by simp
next
  case (Cons c cs)
  show ?case
  proof (cases "c = CHR ''/''")
    case True
    with Cons [of "Some c"] show ?thesis by simp
  next
    case False
    with Cons [of "Some c"] show ?thesis by simp
  qed
qed

lemma collapseSlashes_firstOfEachSlashRun: "collapseSlashes s = firstOfEachSlashRun s"
  using keepers_collapse [of None s] by (simp add: firstOfEachSlashRun_def)

lemma normalizePath_firstOfEachSlashRun:
  "normalizePath p
     = firstOfEachSlashRun (map (\<lambda>c. if c = CHR 0x5C then CHR ''/'' else c) p)"
  by (simp add: normalizePath_def backslashesToSlashes_def collapseSlashes_firstOfEachSlashRun)

text \<open>
  C8. For every string \<open>p\<close>, \<^verbatim>\<open>normalizePath(p)\<close> is \<open>p\<close> with each backslash replaced by a
  slash and then, of every run of slashes, only the first one kept. So it contains no
  backslash and no two slashes in a row, keeps every other character in its place in the
  order, and is left unchanged by a second normalisation.
\<close>

theorem normalizePath_normal_form:
  "CHR 0x5C \<notin> set (normalizePath p)
   \<and> \<not> includesStr (normalizePath p) ''//''
   \<and> filter (\<lambda>c. c \<noteq> CHR ''/'') (normalizePath p)
       = filter (\<lambda>c. c \<noteq> CHR ''/'' \<and> c \<noteq> CHR 0x5C) p
   \<and> normalizePath p
       = firstOfEachSlashRun (map (\<lambda>c. if c = CHR 0x5C then CHR ''/'' else c) p)
   \<and> normalizePath (normalizePath p) = normalizePath p"
  using normalizePath_no_backslash normalizePath_no_double
    normalizePath_keeps_other_characters normalizePath_firstOfEachSlashRun normalizePath_idem
  by blast

text \<open>Backslashes and slashes mixed in one run, and a run of two slashes.\<close>

lemma mixed_separators:
  "firstOfEachSlashRun
     (map (\<lambda>c. if c = CHR 0x5C then CHR ''/'' else c)
        ([CHR ''a'', CHR 0x5C, CHR 0x5C, CHR ''b'', CHR ''/'', CHR 0x5C, CHR ''/'']
         @ ''c//d.ts''))
     = ''a/b/c/d.ts''"
  by code_simp

theorem normalizePath_normal_form_witness:
  "normalizePath ([CHR ''a'', CHR 0x5C, CHR 0x5C, CHR ''b'', CHR ''/'', CHR 0x5C, CHR ''/'']
                  @ ''c//d.ts'')
     = ''a/b/c/d.ts''"
proof -
  from normalizePath_normal_form
         [of "[CHR ''a'', CHR 0x5C, CHR 0x5C, CHR ''b'', CHR ''/'', CHR 0x5C, CHR ''/'']
              @ ''c//d.ts''"]
  have "normalizePath ([CHR ''a'', CHR 0x5C, CHR 0x5C, CHR ''b'', CHR ''/'', CHR 0x5C, CHR ''/'']
                       @ ''c//d.ts'')
          = firstOfEachSlashRun
              (map (\<lambda>c. if c = CHR 0x5C then CHR ''/'' else c)
                 ([CHR ''a'', CHR 0x5C, CHR 0x5C, CHR ''b'', CHR ''/'', CHR 0x5C, CHR ''/'']
                  @ ''c//d.ts''))"
    by blast
  from this mixed_separators show ?thesis by (rule trans)
qed

lemma dropWhile_slashes_before_name:
  "dropWhile (\<lambda>x. x = CHR ''/'') (a @ ''node_modules/'' @ b)
     = dropWhile (\<lambda>x. x = CHR ''/'') a @ ''node_modules/'' @ b"
  by (induction a) auto

lemma collapseSlashes_keeps_node_modules:
  "\<exists>a' b'. collapseSlashes (a @ ''node_modules/'' @ b) = a' @ ''node_modules/'' @ b'"
proof (induction a rule: length_induct)
  case (1 a)
  show ?case
  proof (cases a)
    case Nil
    have "collapseSlashes ([] @ ''node_modules/'' @ b)
            = [] @ ''node_modules/'' @ collapseSlashes (dropWhile (\<lambda>x. x = CHR ''/'') b)"
      by simp
    then show ?thesis unfolding Nil by (intro exI)
  next
    case (Cons c a1)
    show ?thesis
    proof (cases "c = CHR ''/''")
      case True
      let ?a2 = "dropWhile (\<lambda>x. x = CHR ''/'') a1"
      have "length ?a2 < length a"
        using Cons length_dropWhile_le [of "\<lambda>x. x = CHR ''/''" a1] by simp
      with 1 obtain a' b'
        where "collapseSlashes (?a2 @ ''node_modules/'' @ b) = a' @ ''node_modules/'' @ b'"
        by blast
      then have "collapseSlashes (a @ ''node_modules/'' @ b)
                   = (CHR ''/'' # a') @ ''node_modules/'' @ b'"
        using Cons True dropWhile_slashes_before_name [of a1 b] by simp
      then show ?thesis by (intro exI)
    next
      case False
      have "length a1 < length a" using Cons by simp
      with 1 obtain a' b'
        where "collapseSlashes (a1 @ ''node_modules/'' @ b) = a' @ ''node_modules/'' @ b'"
        by blast
      then have "collapseSlashes (a @ ''node_modules/'' @ b) = (c # a') @ ''node_modules/'' @ b'"
        using Cons False by simp
      then show ?thesis by (intro exI)
    qed
  qed
qed

lemma normalizePath_keeps_node_modules:
  assumes "includesStr p ''node_modules/''"
  shows "includesStr (normalizePath p) ''node_modules/''"
proof -
  from assms obtain a b where "p = a @ ''node_modules/'' @ b"
    unfolding includesStr_iff by blast
  then have "backslashesToSlashes p
               = backslashesToSlashes a @ ''node_modules/'' @ backslashesToSlashes b"
    by (simp add: backslashesToSlashes_def)
  then show ?thesis
    unfolding includesStr_iff normalizePath_def
    using collapseSlashes_keeps_node_modules [of "backslashesToSlashes a" "backslashesToSlashes b"]
    by simp
qed

lemma node_modules_ignored: "includesStr p ''node_modules/'' \<Longrightarrow> shouldIgnoreFile p"
  by (simp add: shouldIgnoreFile_def ignorePaths_def ignorePatternMatches_def endsWith_def)

section \<open>The scorer of the file utilities\<close>

lemma scorer_bands:
  "(category (calculateImportanceScore p c) = Critical)
     = (80 \<le> score (calculateImportanceScore p c))
   \<and> (category (calculateImportanceScore p c) = Important)
     = (50 \<le> score (calculateImportanceScore p c) \<and> score (calculateImportanceScore p c) < 80)
   \<and> (category (calculateImportanceScore p c) = Normal)
     = (20 \<le> score (calculateImportanceScore p c) \<and> score (calculateImportanceScore p c) < 50)
   \<and> (category (calculateImportanceScore p c) = Ignore)
     = (score (calculateImportanceScore p c) < 20)"
  by (simp add: calculateImportanceScore_def Let_def categoryOfScore_def)

lemma classifier_bands:
  "(clsCategoryOfScore s = Critical) = (100 \<le> s)
   \<and> (clsCategoryOfScore s = Important) = (60 \<le> s \<and> s < 100)
   \<and> (clsCategoryOfScore s = Normal) = (20 \<le> s \<and> s < 60)
   \<and> (clsCategoryOfScore s = Ignore) = (s < 20)"
  by (simp add: clsCategoryOfScore_def)

text \<open>
  C4. For every path and content, the category that \<^verbatim>\<open>calculateImportanceScore\<close>
  returns is decided by the score it returns: critical exactly from 80 up, important
  exactly from 50 to below 80, normal exactly from 20 to below 50, ignore exactly below 20.
  The bands of the priority classifier are others: 100, 60 and 20.
\<close>

theorem category_bands_of_scorer:
  "(category (calculateImportanceScore p c) = Critical)
     = (80 \<le> score (calculateImportanceScore p c))
   \<and> (category (calculateImportanceScore p c) = Important)
     = (50 \<le> score (calculateImportanceScore p c) \<and> score (calculateImportanceScore p c) < 80)
   \<and> (category (calculateImportanceScore p c) = Normal)
     = (20 \<le> score (calculateImportanceScore p c) \<and> score (calculateImportanceScore p c) < 50)
   \<and> (category (calculateImportanceScore p c) = Ignore)
     = (score (calculateImportanceScore p c) < 20)
   \<and> (clsCategoryOfScore s = Critical) = (100 \<le> s)
   \<and> (clsCategoryOfScore s = Important) = (60 \<le> s \<and> s < 100)
   \<and> (clsCategoryOfScore s = Normal) = (20 \<le> s \<and> s < 60)
   \<and> (clsCategoryOfScore s = Ignore) = (s < 20)"
  using scorer_bands [of p c] classifier_bands [of s] by (intro conjI) blast+

lemma fst_addWhen: "fst (addWhen cond b r acc) = fst acc + (if cond then b else 0)"
  by (simp add: addWhen_def)

text \<open>The score as a sum of the bonuses, followed by the adjustment for a test file.\<close>

lemma score_formula:
  "score (calculateImportanceScore p c) =
     (let f = fileNameOf p;
          s = (if f \<in> set packageFilePatterns then 100 else 0)
              + (if f \<in> set entryPointPatterns then 80 else 0)
              + (if matchesConfigPattern f then 60 else 0)
              + (if includesStr f ''Dockerfile'' \<or> includesStr f ''docker-compose''
                    \<or> includesStr f ''.github'' \<or> includesStr f ''.gitlab-ci'' then 70 else 0)
              + (if includesStr f ''schema'' \<or> includesStr f ''openapi''
                    \<or> includesStr f ''swagger'' then 50 else 0)
              + (if getFileType p None = Source then 30 else 0)
      in if getFileType p None = Test then max (s - 20) 10 else s)"
  unfolding calculateImportanceScore_def Let_def
  by (simp only: fst_addWhen ImportanceScore.simps fst_conv split: if_split) simp

text \<open>
  The bonuses exclude one another: the name of a package file is no entry point, no
  configuration file, no Docker or CI file and no schema; the name of an entry point is
  none of the last three; and a configuration file is not of type source.
\<close>

lemma package_names_exclusive:
  "\<forall>f \<in> set packageFilePatterns.
     f \<notin> set entryPointPatterns \<and> \<not> matchesConfigPattern f
     \<and> \<not> (includesStr f ''Dockerfile'' \<or> includesStr f ''docker-compose''
            \<or> includesStr f ''.github'' \<or> includesStr f ''.gitlab-ci'')
     \<and> \<not> (includesStr f ''schema'' \<or> includesStr f ''openapi'' \<or> includesStr f ''swagger'')"
  by code_simp

lemma entry_names_exclusive:
  "\<forall>f \<in> set entryPointPatterns.
     \<not> matchesConfigPattern f
     \<and> \<not> (includesStr f ''Dockerfile'' \<or> includesStr f ''docker-compose''
            \<or> includesStr f ''.github'' \<or> includesStr f ''.gitlab-ci'')
     \<and> \<not> (includesStr f ''schema'' \<or> includesStr f ''openapi'' \<or> includesStr f ''swagger'')"
  by code_simp

lemma type_of_package: "fileNameOf p \<in> set packageFilePatterns \<Longrightarrow> getFileType p c = Package"
  by (simp add: getFileType_def)

lemma type_of_config:
  "fileNameOf p \<notin> set packageFilePatterns \<Longrightarrow> matchesConfigPattern (fileNameOf p)
     \<Longrightarrow> getFileType p c = Config"
  by (simp add: getFileType_def)

lemma score_bounds:
  "0 \<le> score (calculateImportanceScore p c) \<and> score (calculateImportanceScore p c) \<le> 200"
proof -
  let ?f = "fileNameOf p"
  consider (pkg) "?f \<in> set packageFilePatterns"
    | (entry) "?f \<notin> set packageFilePatterns" "?f \<in> set entryPointPatterns"
    | (config) "?f \<notin> set packageFilePatterns" "?f \<notin> set entryPointPatterns"
        "matchesConfigPattern ?f"
    | (other) "?f \<notin> set packageFilePatterns" "?f \<notin> set entryPointPatterns"
        "\<not> matchesConfigPattern ?f"
    by blast
  then show ?thesis
  proof cases
    case pkg
    with package_names_exclusive type_of_package [OF pkg, of None] show ?thesis
      unfolding score_formula Let_def by simp
  next
    case entry
    with entry_names_exclusive show ?thesis
      unfolding score_formula Let_def by simp
  next
    case config
    with type_of_config [of p None] show ?thesis
      unfolding score_formula Let_def by simp
  next
    case other
    then show ?thesis
      unfolding score_formula Let_def by simp
  qed
qed

text \<open>Three bonuses on one name: configuration, Docker and schema.\<close>

lemma stacked_bonuses: "score (calculateImportanceScore ''Dockerfile.schema.yml'' c) = 180"
  by code_simp

text \<open>
  C3. For every path and content, the score that \<^verbatim>\<open>calculateImportanceScore\<close> returns
  lies between 0 and 200, and so does the score of every entry that
  \<^verbatim>\<open>createFileIndexEntry\<close> builds; bonuses do add up, to 180 for the name
  \<^verbatim>\<open>Dockerfile.schema.yml\<close>. The scorer has no clamp; the bound holds because the
  bonuses that could add up beyond it exclude one another.
\<close>

theorem scorer_score_in_range:
  "0 \<le> score (calculateImportanceScore p c)
   \<and> score (calculateImportanceScore p c) \<le> 200
   \<and> 0 \<le> score (importance (createFileIndexEntry opts now file))
   \<and> score (importance (createFileIndexEntry opts now file)) \<le> 200
   \<and> score (calculateImportanceScore ''Dockerfile.schema.yml'' c) = 180"
  using score_bounds stacked_bonuses by (simp add: createFileIndexEntry_def Let_def)

lemma score_utils_test_ts: "score (calculateImportanceScore ''src/utils.test.ts'' c) = 10"
  by code_simp

lemma score_utils_ts: "score (calculateImportanceScore ''src/utils.ts'' c) = 30"
  by code_simp

text \<open>
  C6. With the same content, \<^verbatim>\<open>src/utils.test.ts\<close> is scored strictly lower than
  \<^verbatim>\<open>src/utils.ts\<close>.
\<close>

theorem test_file_scores_lower:
  "score (calculateImportanceScore ''src/utils.test.ts'' c)
     < score (calculateImportanceScore ''src/utils.ts'' c)"
  by (simp add: score_utils_test_ts score_utils_ts)

section \<open>The sort\<close>

lemma insertBy_insort_key:
  "insertBy byScoreDescending x ys = insort_key (\<lambda>e. - score (importance e)) x ys"
  by (induction ys) (auto simp: byScoreDescending_def)

lemma sortBy_sort_key:
  "sortBy byScoreDescending xs = sort_key (\<lambda>e. - score (importance e)) xs"
proof -
  have "insertBy byScoreDescending = insort_key (\<lambda>e. - score (importance e))"
    by (intro ext) (rule insertBy_insort_key)
  then show ?thesis by (simp add: sortBy_def sort_key_def)
qed

lemma sortBy_sorted:
  "sorted_wrt (\<lambda>a b. score (importance b) \<le> score (importance a)) (sortBy byScoreDescending xs)"
proof -
  have "sorted (map (\<lambda>e. - score (importance e)) (sort_key (\<lambda>e. - score (importance e)) xs))"
    by (rule sorted_sort_key)
  then show ?thesis by (simp add: sortBy_sort_key sorted_map)
qed

lemma sortBy_stable:
  "filter (\<lambda>e. score (importance e) = k) (sortBy byScoreDescending xs)
     = filter (\<lambda>e. score (importance e) = k) xs"
proof -
  have "filter (\<lambda>e. - score (importance e) = - k) (sort_key (\<lambda>e. - score (importance e)) xs)
          = filter (\<lambda>e. - score (importance e) = - k) xs"
    by (rule sort_key_stable)
  then show ?thesis by (simp add: sortBy_sort_key)
qed

lemma set_sortBy: "set (sortBy byScoreDescending xs) = set xs"
  by (simp add: sortBy_sort_key)

lemma length_sortBy: "length (sortBy byScoreDescending xs) = length xs"
  by (simp add: sortBy_sort_key)

section \<open>The loop of the indexer\<close>

text \<open>
  The six ways one round of the loop can go, as a rule for proving a relation between the
  files left, the state before them and the state the loop ends in.
\<close>

lemma indexLoop_cases [case_names Nil Error Ignored TooBig Cutoff Indexed]:
  assumes "\<And>st. P [] st st"
    and "\<And>f rest st msg.
           indexerShouldIgnoreFile rx opts (path f) = Inl msg \<Longrightarrow>
           P rest (st\<lparr>accErrors := accErrors st @ [errorMessageFor f msg]\<rparr>)
             (indexLoop rx opts clock rest (st\<lparr>accErrors := accErrors st @ [errorMessageFor f msg]\<rparr>)) \<Longrightarrow>
           P (f # rest) st
             (indexLoop rx opts clock rest (st\<lparr>accErrors := accErrors st @ [errorMessageFor f msg]\<rparr>))"
    and "\<And>f rest st.
           indexerShouldIgnoreFile rx opts (path f) = Inr True \<Longrightarrow>
           P rest (st\<lparr>accIgnored := accIgnored st + 1\<rparr>)
             (indexLoop rx opts clock rest (st\<lparr>accIgnored := accIgnored st + 1\<rparr>)) \<Longrightarrow>
           P (f # rest) st (indexLoop rx opts clock rest (st\<lparr>accIgnored := accIgnored st + 1\<rparr>))"
    and "\<And>f rest st.
           indexerShouldIgnoreFile rx opts (path f) = Inr False \<Longrightarrow>
           fileSize f > maxFileSize opts \<Longrightarrow>
           P rest (st\<lparr>accWarnings := accWarnings st @ [sizeWarningFor f],
                      accIgnored := accIgnored st + 1\<rparr>)
             (indexLoop rx opts clock rest
                (st\<lparr>accWarnings := accWarnings st @ [sizeWarningFor f],
                    accIgnored := accIgnored st + 1\<rparr>)) \<Longrightarrow>
           P (f # rest) st
             (indexLoop rx opts clock rest
                (st\<lparr>accWarnings := accWarnings st @ [sizeWarningFor f],
                    accIgnored := accIgnored st + 1\<rparr>))"
    and "\<And>f rest st.
           indexerShouldIgnoreFile rx opts (path f) = Inr False \<Longrightarrow>
           \<not> fileSize f > maxFileSize opts \<Longrightarrow>
           maxFiles opts \<le> int (Suc (length (accIndex st))) \<Longrightarrow>
           P (f # rest) st
             (st\<lparr>accIndex := accIndex st
                      @ [createFileIndexEntry opts (entryTime clock (length (accIndex st))) f],
                 accTotalSize := accTotalSize st + fileSize f,
                 accWarnings := accWarnings st @ [limitWarningFor opts]\<rparr>)"
    and "\<And>f rest st.
           indexerShouldIgnoreFile rx opts (path f) = Inr False \<Longrightarrow>
           \<not> fileSize f > maxFileSize opts \<Longrightarrow>
           \<not> maxFiles opts \<le> int (Suc (length (accIndex st))) \<Longrightarrow>
           P rest (st\<lparr>accIndex := accIndex st
                      @ [createFileIndexEntry opts (entryTime clock (length (accIndex st))) f],
                     accTotalSize := accTotalSize st + fileSize f\<rparr>)
             (indexLoop rx opts clock rest
               (st\<lparr>accIndex := accIndex st
                      @ [createFileIndexEntry opts (entryTime clock (length (accIndex st))) f],
                     accTotalSize := accTotalSize st + fileSize f\<rparr>)) \<Longrightarrow>
           P (f # rest) st
             (indexLoop rx opts clock rest
               (st\<lparr>accIndex := accIndex st
                      @ [createFileIndexEntry opts (entryTime clock (length (accIndex st))) f],
                     accTotalSize := accTotalSize st + fileSize f\<rparr>))"
  shows "P fs st (indexLoop rx opts clock fs st)"
proof (induction fs arbitrary: st)
  case Nil
  show ?case by (simp add: assms(1))
next
  case (Cons f rest)
  show ?case
  proof (cases "indexerShouldIgnoreFile rx opts (path f)")
    case (Inl msg)
    from assms(2) [OF Inl Cons.IH] show ?thesis
      using Inl by simp
  next
    case (Inr b)
    show ?thesis
    proof (cases b)
      case True
      with Inr have ig: "indexerShouldIgnoreFile rx opts (path f) = Inr True" by simp
      from assms(3) [OF ig Cons.IH] show ?thesis using ig by simp
    next
      case False
      with Inr have ni: "indexerShouldIgnoreFile rx opts (path f) = Inr False" by simp
      show ?thesis
      proof (cases "fileSize f > maxFileSize opts")
        case True
        from assms(4) [OF ni True Cons.IH] show ?thesis
          using ni True by simp
      next
        case small: False
        show ?thesis
        proof (cases "maxFiles opts \<le> int (Suc (length (accIndex st)))")
          case True
          from assms(5) [OF ni small True, of rest] show ?thesis
            using ni small True by (simp add: Let_def)
        next
          case False
          from assms(6) [OF ni small False Cons.IH] show ?thesis
            using ni small False by (simp add: Let_def)
        qed
      qed
    qed
  qed
qed

lemma entriesOf_simps:
  "entriesOf opts clock n [] = []"
  "entriesOf opts clock n (f # gs) = createFileIndexEntry opts (entryTime clock n) f # entriesOf opts clock (Suc n) gs"
  by (simp_all add: entriesOf_def)

text \<open>The loop only ever appends to its lists and adds to its counter.\<close>

lemma indexLoop_mono:
  "set (accErrors st) \<subseteq> set (accErrors (indexLoop rx opts clock fs st))
   \<and> set (accWarnings st) \<subseteq> set (accWarnings (indexLoop rx opts clock fs st))
   \<and> set (accIndex st) \<subseteq> set (accIndex (indexLoop rx opts clock fs st))
   \<and> length (accIndex st) \<le> length (accIndex (indexLoop rx opts clock fs st))
   \<and> accIgnored st \<le> accIgnored (indexLoop rx opts clock fs st)"
  by (rule indexLoop_cases [where P = "\<lambda>fs st res.
         set (accErrors st) \<subseteq> set (accErrors res)
         \<and> set (accWarnings st) \<subseteq> set (accWarnings res)
         \<and> set (accIndex st) \<subseteq> set (accIndex res)
         \<and> length (accIndex st) \<le> length (accIndex res)
         \<and> accIgnored st \<le> accIgnored res"]) auto

text \<open>
  The entries the loop adds are built from admitted files, in the order of the files.
\<close>

lemma indexLoop_entries:
  "\<exists>gs. subseq gs fs \<and> (\<forall>g \<in> set gs. admitted rx opts g)
        \<and> accIndex (indexLoop rx opts clock fs st)
            = accIndex st @ entriesOf opts clock (length (accIndex st)) gs"
proof (rule indexLoop_cases [where P = "\<lambda>fs st res.
         \<exists>gs. subseq gs fs \<and> (\<forall>g \<in> set gs. admitted rx opts g)
           \<and> accIndex res = accIndex st @ entriesOf opts clock (length (accIndex st)) gs"],
       goal_cases)
  case (1 st)
  have "subseq [] ([]::FileEntry list)" by simp
  then show ?case by (auto simp: entriesOf_simps intro!: exI [of _ "[]"])
next
  case (2 f rest st msg)
  then obtain gs where "subseq gs rest" "\<forall>g \<in> set gs. admitted rx opts g"
    "accIndex (indexLoop rx opts clock rest (st\<lparr>accErrors := accErrors st @ [errorMessageFor f msg]\<rparr>))
       = accIndex st @ entriesOf opts clock (length (accIndex st)) gs" by auto
  moreover from this(1) have "subseq gs (f # rest)" by (auto intro: list_emb_Cons)
  ultimately show ?case by blast
next
  case (3 f rest st)
  then obtain gs where "subseq gs rest" "\<forall>g \<in> set gs. admitted rx opts g"
    "accIndex (indexLoop rx opts clock rest (st\<lparr>accIgnored := accIgnored st + 1\<rparr>))
       = accIndex st @ entriesOf opts clock (length (accIndex st)) gs" by auto
  moreover from this(1) have "subseq gs (f # rest)" by (auto intro: list_emb_Cons)
  ultimately show ?case by blast
next
  case (4 f rest st)
  then obtain gs where "subseq gs rest" "\<forall>g \<in> set gs. admitted rx opts g"
    "accIndex (indexLoop rx opts clock rest
         (st\<lparr>accWarnings := accWarnings st @ [sizeWarningFor f], accIgnored := accIgnored st + 1\<rparr>))
       = accIndex st @ entriesOf opts clock (length (accIndex st)) gs" by auto
  moreover from this(1) have "subseq gs (f # rest)" by (auto intro: list_emb_Cons)
  ultimately show ?case by blast
next
  case (5 f rest st)
  have "subseq [f] (f # rest)" by simp
  moreover have "\<forall>g \<in> set [f]. admitted rx opts g" using 5 by (simp add: admitted_def)
  ultimately show ?case
    by (intro exI [of _ "[f]"]) (simp add: entriesOf_simps)
next
  case (6 f rest st)
  then obtain gs where gs: "subseq gs rest" "\<forall>g \<in> set gs. admitted rx opts g"
    "accIndex (indexLoop rx opts clock rest
        (st\<lparr>accIndex := accIndex st
                      @ [createFileIndexEntry opts (entryTime clock (length (accIndex st))) f],
                     accTotalSize := accTotalSize st + fileSize f\<rparr>))
       = (accIndex st @ [createFileIndexEntry opts (entryTime clock (length (accIndex st))) f])
          @ entriesOf opts clock (Suc (length (accIndex st))) gs" by auto
  have "subseq (f # gs) (f # rest)" using gs(1) by simp
  moreover have "\<forall>g \<in> set (f # gs). admitted rx opts g" using 6(1,2) gs(2) by (simp add: admitted_def)
  ultimately show ?case using gs(3)
    by (intro exI [of _ "f # gs"]) (simp add: entriesOf_simps)
qed

text \<open>
  When the loop ends below the limit it has gone through every file: what a file raised
  is in the errors, a file too big is in the warnings, an admitted file is in the index.
\<close>

lemma indexLoop_records:
  assumes "int (length (accIndex (indexLoop rx opts clock fs st))) < maxFiles opts"
    and "f \<in> set fs"
  shows "(\<forall>msg. indexerShouldIgnoreFile rx opts (path f) = Inl msg
            \<longrightarrow> errorMessageFor f msg \<in> set (accErrors (indexLoop rx opts clock fs st)))
       \<and> (indexerShouldIgnoreFile rx opts (path f) = Inr False \<and> fileSize f > maxFileSize opts
            \<longrightarrow> sizeWarningFor f \<in> set (accWarnings (indexLoop rx opts clock fs st)))
       \<and> (admitted rx opts f
            \<longrightarrow> normalizePath (path f) \<in> entryPath ` set (accIndex (indexLoop rx opts clock fs st)))"
proof -
  have "int (length (accIndex (indexLoop rx opts clock fs st))) < maxFiles opts \<longrightarrow>
        (\<forall>f \<in> set fs.
          (\<forall>msg. indexerShouldIgnoreFile rx opts (path f) = Inl msg
            \<longrightarrow> errorMessageFor f msg \<in> set (accErrors (indexLoop rx opts clock fs st)))
       \<and> (indexerShouldIgnoreFile rx opts (path f) = Inr False \<and> fileSize f > maxFileSize opts
            \<longrightarrow> sizeWarningFor f \<in> set (accWarnings (indexLoop rx opts clock fs st)))
       \<and> (admitted rx opts f
            \<longrightarrow> normalizePath (path f) \<in> entryPath ` set (accIndex (indexLoop rx opts clock fs st))))"
  proof (rule indexLoop_cases [where P = "\<lambda>fs st res.
        int (length (accIndex res)) < maxFiles opts \<longrightarrow>
        (\<forall>f \<in> set fs.
          (\<forall>msg. indexerShouldIgnoreFile rx opts (path f) = Inl msg
            \<longrightarrow> errorMessageFor f msg \<in> set (accErrors res))
       \<and> (indexerShouldIgnoreFile rx opts (path f) = Inr False \<and> fileSize f > maxFileSize opts
            \<longrightarrow> sizeWarningFor f \<in> set (accWarnings res))
       \<and> (admitted rx opts f
            \<longrightarrow> normalizePath (path f) \<in> entryPath ` set (accIndex res)))"], goal_cases)
    case (1 st)
    then show ?case by simp
  next
    case (2 f rest st msg)
    let ?st = "st\<lparr>accErrors := accErrors st @ [errorMessageFor f msg]\<rparr>"
    have "errorMessageFor f msg \<in> set (accErrors (indexLoop rx opts clock rest ?st))"
      using indexLoop_mono [of ?st rx opts clock rest] by auto
    with 2 show ?case by (auto simp: admitted_def)
  next
    case (3 f rest st)
    then show ?case by (auto simp: admitted_def)
  next
    case (4 f rest st)
    let ?st = "st\<lparr>accWarnings := accWarnings st @ [sizeWarningFor f], accIgnored := accIgnored st + 1\<rparr>"
    have "sizeWarningFor f \<in> set (accWarnings (indexLoop rx opts clock rest ?st))"
      using indexLoop_mono [of ?st rx opts clock rest] by auto
    with 4 show ?case by (auto simp: admitted_def)
  next
    case (5 f rest st)
    then show ?case by simp
  next
    case (6 f rest st)
    let ?e = "createFileIndexEntry opts (entryTime clock (length (accIndex st))) f"
    let ?st = "st\<lparr>accIndex := accIndex st @ [?e], accTotalSize := accTotalSize st + fileSize f\<rparr>"
    have "?e \<in> set (accIndex (indexLoop rx opts clock rest ?st))"
      using indexLoop_mono [of ?st rx opts clock rest] by auto
    moreover have "entryPath ?e = normalizePath (path f)"
      by (simp add: createFileIndexEntry_def Let_def)
    ultimately have "normalizePath (path f) \<in> entryPath ` set (accIndex (indexLoop rx opts clock rest ?st))"
      by (metis imageI)
    with 6 show ?case by (auto simp: admitted_def)
  qed
  with assms show ?thesis by blast
qed

text \<open>Below the limit, every file that the default rules ignore has been counted.\<close>

lemma indexLoop_counts_ignored:
  "int (length (accIndex (indexLoop rx opts clock fs st))) < maxFiles opts \<longrightarrow>
     accIgnored st + length (filter (\<lambda>f. shouldIgnoreFile (path f)) fs)
       \<le> accIgnored (indexLoop rx opts clock fs st)"
proof (rule indexLoop_cases [where P = "\<lambda>fs st res.
        int (length (accIndex res)) < maxFiles opts \<longrightarrow>
        accIgnored st + length (filter (\<lambda>f. shouldIgnoreFile (path f)) fs) \<le> accIgnored res"],
       goal_cases)
  case (1 st)
  then show ?case by simp
next
  case (2 f rest st msg)
  then show ?case by (auto simp: indexerShouldIgnoreFile_def split: if_splits)
next
  case (3 f rest st)
  then show ?case by auto
next
  case (4 f rest st)
  then show ?case by (auto simp: indexerShouldIgnoreFile_def split: if_splits)
next
  case (5 f rest st)
  then show ?case by simp
next
  case (6 f rest st)
  then show ?case by (auto simp: indexerShouldIgnoreFile_def split: if_splits)
qed

text \<open>Below the limit, the counter has gone up by one for each counted file and no other.\<close>

lemma indexLoop_ignored_exact:
  "int (length (accIndex (indexLoop rx opts clock fs st))) < maxFiles opts \<longrightarrow>
     accIgnored (indexLoop rx opts clock fs st)
       = accIgnored st + length (filter (countedAsIgnored rx opts) fs)"
proof (rule indexLoop_cases [where P = "\<lambda>fs st res.
        int (length (accIndex res)) < maxFiles opts \<longrightarrow>
        accIgnored res = accIgnored st + length (filter (countedAsIgnored rx opts) fs)"],
       goal_cases)
  case (1 st)
  then show ?case by simp
next
  case (2 f rest st msg)
  then show ?case by (simp add: countedAsIgnored_def)
next
  case (3 f rest st)
  then show ?case by (simp add: countedAsIgnored_def)
next
  case (4 f rest st)
  then show ?case by (simp add: countedAsIgnored_def)
next
  case (5 f rest st)
  then show ?case by simp
next
  case (6 f rest st)
  then show ?case by (simp add: countedAsIgnored_def)
qed

text \<open>
  The files that the loop examines, one round at a time: a file that is not admitted is
  passed over, an admitted file that fills the index is the last one examined.
\<close>

lemma limitReached_Nil: "\<not> limitReached rx opts n []"
  by (simp add: limitReached_def)

lemma limitReached_skip:
  "\<not> admitted rx opts f \<Longrightarrow> limitReached rx opts n (f # d) = limitReached rx opts n d"
  by (simp add: limitReached_def)

lemma limitReached_first:
  "admitted rx opts f \<Longrightarrow> maxFiles opts \<le> int (Suc n) \<Longrightarrow> limitReached rx opts n (f # d)"
  by (simp add: limitReached_def)

lemma limitReached_next:
  "admitted rx opts f \<Longrightarrow> \<not> maxFiles opts \<le> int (Suc n)
     \<Longrightarrow> limitReached rx opts n (f # d) = limitReached rx opts (Suc n) d"
  by (auto simp: limitReached_def)

lemma first_of_map_Cons:
  "(case map ((#) f) ds of [] \<Rightarrow> f # fs | d # ds' \<Rightarrow> d)
     = f # (case ds of [] \<Rightarrow> fs | d # ds' \<Rightarrow> d)"
  by (cases ds) simp_all

lemma examinedFiles_Nil: "examinedFiles rx opts n [] = []"
  by (simp add: examinedFiles_def limitReached_Nil)

lemma examinedFiles_skip:
  assumes "\<not> admitted rx opts f"
  shows "examinedFiles rx opts n (f # fs) = f # examinedFiles rx opts n fs"
proof -
  have "filter (limitReached rx opts n) (map ((#) f) (prefixes fs))
          = map ((#) f) (filter (limitReached rx opts n) (prefixes fs))"
    using assms by (simp add: filter_map comp_def limitReached_skip)
  then show ?thesis
    by (simp add: examinedFiles_def limitReached_Nil first_of_map_Cons)
qed

lemma examinedFiles_first:
  assumes "admitted rx opts f" and "maxFiles opts \<le> int (Suc n)"
  shows "examinedFiles rx opts n (f # fs) = [f]"
proof -
  obtain ps where "prefixes fs = [] # ps" by (cases fs) auto
  then show ?thesis
    using limitReached_first [OF assms, of "[]"]
    by (simp add: examinedFiles_def limitReached_Nil)
qed

lemma examinedFiles_next:
  assumes "admitted rx opts f" and "\<not> maxFiles opts \<le> int (Suc n)"
  shows "examinedFiles rx opts n (f # fs) = f # examinedFiles rx opts (Suc n) fs"
proof -
  have "filter (limitReached rx opts n) (map ((#) f) (prefixes fs))
          = map ((#) f) (filter (limitReached rx opts (Suc n)) (prefixes fs))"
    using assms by (simp add: filter_map comp_def limitReached_next)
  then show ?thesis
    by (simp add: examinedFiles_def limitReached_Nil first_of_map_Cons)
qed

lemma prefix_examinedFiles: "prefix (examinedFiles rx opts n fs) fs"
proof (cases "filter (limitReached rx opts n) (prefixes fs)")
  case Nil
  then show ?thesis by (simp add: examinedFiles_def)
next
  case (Cons d ds)
  then have "d \<in> set (filter (limitReached rx opts n) (prefixes fs))" by simp
  then have "prefix d fs" by (simp add: in_set_prefixes)
  with Cons show ?thesis by (simp add: examinedFiles_def)
qed

text \<open>Unless the limit is reached, every file is examined.\<close>

lemma examinedFiles_all_or_limit:
  "examinedFiles rx opts n fs = fs \<or> limitReached rx opts n (examinedFiles rx opts n fs)"
proof (cases "filter (limitReached rx opts n) (prefixes fs)")
  case Nil
  then show ?thesis by (simp add: examinedFiles_def)
next
  case (Cons d ds)
  then have "d \<in> set (filter (limitReached rx opts n) (prefixes fs))" by simp
  then have "limitReached rx opts n d" by simp
  with Cons show ?thesis by (simp add: examinedFiles_def)
qed

lemma examinedFiles_below_limit:
  assumes "int (n + length (filter (admitted rx opts) (examinedFiles rx opts n fs))) < maxFiles opts"
  shows "examinedFiles rx opts n fs = fs"
  using examinedFiles_all_or_limit [of rx opts n fs] assms
  by (auto simp: limitReached_def)

text \<open>The four ways a round of the loop can go, in terms of the notions of the statements.\<close>

lemma not_admitted_when_raised:
  "indexerShouldIgnoreFile rx opts (path f) = Inl msg \<Longrightarrow>
     \<not> admitted rx opts f \<and> \<not> countedAsIgnored rx opts f \<and> \<not> tooBig rx opts f
     \<and> raisedErrors rx opts f = [errorMessageFor f msg]"
  by (simp add: admitted_def countedAsIgnored_def tooBig_def raisedErrors_def)

lemma not_admitted_when_ignored:
  "indexerShouldIgnoreFile rx opts (path f) = Inr True \<Longrightarrow>
     \<not> admitted rx opts f \<and> countedAsIgnored rx opts f \<and> \<not> tooBig rx opts f
     \<and> raisedErrors rx opts f = []"
  by (simp add: admitted_def countedAsIgnored_def tooBig_def raisedErrors_def)

lemma not_admitted_when_too_big:
  "indexerShouldIgnoreFile rx opts (path f) = Inr False \<Longrightarrow> fileSize f > maxFileSize opts \<Longrightarrow>
     \<not> admitted rx opts f \<and> countedAsIgnored rx opts f \<and> tooBig rx opts f
     \<and> raisedErrors rx opts f = []"
  by (simp add: admitted_def countedAsIgnored_def tooBig_def raisedErrors_def)

lemma admitted_otherwise:
  "indexerShouldIgnoreFile rx opts (path f) = Inr False \<Longrightarrow> \<not> fileSize f > maxFileSize opts \<Longrightarrow>
     admitted rx opts f \<and> \<not> countedAsIgnored rx opts f \<and> \<not> tooBig rx opts f
     \<and> raisedErrors rx opts f = []"
  by (simp add: admitted_def countedAsIgnored_def tooBig_def raisedErrors_def)

text \<open>The state the loop ends in, read off the files it examines.\<close>

lemma indexLoop_exact:
  "accErrors (indexLoop rx opts clock fs st) = accErrors st
     @ concat (map (raisedErrors rx opts) (examinedFiles rx opts (length (accIndex st)) fs))
   \<and> accWarnings (indexLoop rx opts clock fs st) = accWarnings st
     @ map sizeWarningFor
         (filter (tooBig rx opts) (examinedFiles rx opts (length (accIndex st)) fs))
     @ (if limitReached rx opts (length (accIndex st))
             (examinedFiles rx opts (length (accIndex st)) fs)
        then [limitWarningFor opts] else [])
   \<and> accIgnored (indexLoop rx opts clock fs st) = accIgnored st
     + length (filter (countedAsIgnored rx opts)
                 (examinedFiles rx opts (length (accIndex st)) fs))
   \<and> accIndex (indexLoop rx opts clock fs st) = accIndex st
     @ entriesOf opts clock (length (accIndex st))
         (filter (admitted rx opts) (examinedFiles rx opts (length (accIndex st)) fs))
   \<and> accTotalSize (indexLoop rx opts clock fs st) = accTotalSize st
     + sum_list (map fileSize
         (filter (admitted rx opts) (examinedFiles rx opts (length (accIndex st)) fs)))"
proof (rule indexLoop_cases [where P = "\<lambda>fs st res.
         accErrors res = accErrors st
             @ concat (map (raisedErrors rx opts) (examinedFiles rx opts (length (accIndex st)) fs))
         \<and> accWarnings res = accWarnings st
             @ map sizeWarningFor
                 (filter (tooBig rx opts) (examinedFiles rx opts (length (accIndex st)) fs))
             @ (if limitReached rx opts (length (accIndex st))
                     (examinedFiles rx opts (length (accIndex st)) fs)
                then [limitWarningFor opts] else [])
         \<and> accIgnored res = accIgnored st
             + length (filter (countedAsIgnored rx opts)
                         (examinedFiles rx opts (length (accIndex st)) fs))
         \<and> accIndex res = accIndex st
             @ entriesOf opts clock (length (accIndex st))
                 (filter (admitted rx opts) (examinedFiles rx opts (length (accIndex st)) fs))
         \<and> accTotalSize res = accTotalSize st
             + sum_list (map fileSize
                 (filter (admitted rx opts) (examinedFiles rx opts (length (accIndex st)) fs)))"],
       goal_cases)
  case (1 st)
  show ?case by (simp add: examinedFiles_Nil limitReached_Nil entriesOf_simps)
next
  case (2 f rest st msg)
  from not_admitted_when_raised [OF 2(1)] 2(2) show ?case
    by (simp add: examinedFiles_skip limitReached_skip)
next
  case (3 f rest st)
  from not_admitted_when_ignored [OF 3(1)] 3(2) show ?case
    by (simp add: examinedFiles_skip limitReached_skip)
next
  case (4 f rest st)
  from not_admitted_when_too_big [OF 4(1,2)] 4(3) show ?case
    by (simp add: examinedFiles_skip limitReached_skip)
next
  case (5 f rest st)
  from admitted_otherwise [OF 5(1,2)] 5(3) show ?case
    by (simp add: examinedFiles_first limitReached_first entriesOf_simps)
next
  case (6 f rest st)
  from admitted_otherwise [OF 6(1,2)] 6(3,4) show ?case
    by (simp add: examinedFiles_next limitReached_next entriesOf_simps)
qed

section \<open>The run as a whole\<close>

lemma filterFiles_map_filter:
  "filterFiles fs = map normalized (filter (\<lambda>f. path f \<noteq> [] \<and> \<not> fileSize f < 0) fs)"
  by (induction fs) (auto simp: normalized_def)

lemma subseq_map_ex:
  "subseq gs (map h ys) \<Longrightarrow> \<exists>zs. subseq zs ys \<and> gs = map h zs"
proof (induction ys arbitrary: gs)
  case Nil
  then have "gs = []" by (auto dest: list_emb_Nil2)
  then show ?case by simp
next
  case (Cons y ys)
  show ?case
  proof (cases gs)
    case Nil
    then show ?thesis by (auto intro!: exI [of _ "[]"])
  next
    case (Cons g gs')
    show ?thesis
    proof (cases "g = h y")
      case True
      with Cons.prems Cons have "subseq gs' (map h ys)" by simp
      from Cons.IH [OF this] obtain zs where "subseq zs ys" "gs' = map h zs" by blast
      then have "subseq (y # zs) (y # ys)" "gs = map h (y # zs)" using Cons True by simp_all
      then show ?thesis by blast
    next
      case False
      with Cons.prems Cons have "subseq gs (map h ys)" by simp
      from Cons.IH [OF this] obtain zs where "subseq zs ys" "gs = map h zs" by blast
      then have "subseq zs (y # ys)" by (auto intro: list_emb_Cons)
      then show ?thesis using \<open>gs = map h zs\<close> by blast
    qed
  qed
qed

lemma entriesOf_map:
  "entriesOf opts clock n (map h zs)
     = map (\<lambda>(k, f). createFileIndexEntry opts (entryTime clock k) (h f)) (enumerate n zs)"
  by (induction zs arbitrary: n) (simp_all add: entriesOf_simps)

lemma loopResult_entries:
  "\<exists>fs. subseq fs (files input)
        \<and> accIndex (loopResult rx opts clock input) = entriesOf opts clock 0 (map normalized fs)"
proof -
  let ?valid = "filter (\<lambda>f. path f \<noteq> [] \<and> \<not> fileSize f < 0) (files input)"
  let ?st0 = "\<lparr> accIndex = [], accTotalSize = 0, accIgnored = 0, accErrors = [],
             accWarnings = (if filterFiles (files input) = []
                            then [''No files remaining after filtering''] else []) \<rparr>"
  from indexLoop_entries [of "filterFiles (files input)" rx opts clock ?st0]
  obtain gs where gs: "subseq gs (filterFiles (files input))"
    "accIndex (loopResult rx opts clock input) = entriesOf opts clock 0 gs"
    by (auto simp: loopResult_def Let_def)
  from gs(1) have "subseq gs (map normalized ?valid)" by (simp add: filterFiles_map_filter)
  from subseq_map_ex [OF this] obtain zs where zs: "subseq zs ?valid" "gs = map normalized zs"
    by blast
  have "subseq ?valid (files input)" by simp
  with zs(1) have "subseq zs (files input)" by (rule subseq_order.order_trans)
  with gs(2) zs(2) show ?thesis by blast
qed

lemma filterFiles_paths_normalized:
  "f \<in> set (filterFiles fs) \<Longrightarrow> normalizePath (path f) = path f"
  by (induction fs) (auto simp: normalizePath_idem split: if_splits)

lemma indexCodebase_result:
  assumes "files input \<noteq> []"
  shows "indexCodebase rx opts clock input =
           Inr \<lparr> index = \<lparr> fileIndex = sortBy byScoreDescending (accIndex (loopResult rx opts clock input)),
                           statistics = calculateStatistics
                             (sortBy byScoreDescending (accIndex (loopResult rx opts clock input))) \<rparr>,
                  runStatistics =
                    \<lparr> totalFilesScanned = length (files input),
                      filesIndexed = length (accIndex (loopResult rx opts clock input)),
                      filesIgnored = accIgnored (loopResult rx opts clock input),
                      totalSizeBytes = accTotalSize (loopResult rx opts clock input),
                      indexingTimeMs = endTime clock - startTime clock,
                      errors = accErrors (loopResult rx opts clock input),
                      warnings = accWarnings (loopResult rx opts clock input) \<rparr> \<rparr>"
  using assms by (simp add: indexCodebase_def indexCodebaseBody_def Let_def length_sortBy)

lemma indexCodebase_Inr_nonempty:
  "indexCodebase rx opts clock input = Inr r \<Longrightarrow> files input \<noteq> []"
  by (auto simp: indexCodebase_def indexCodebaseBody_def)

lemma indexCodebase_error:
  assumes "files input = []"
  shows "indexCodebase rx opts clock input =
           Inl \<lparr> code = ''FILE_INDEXING_FAILED'',
                 message = ''File indexing failed: No files provided for indexing'',
                 errorCategory = Analysis, recoverable = False,
                 suggestions = [''Check file permissions'', ''Verify file structure'',
                                ''Reduce file count or size''],
                 partialResults = Some \<lparr> processedFiles = 0, totalFiles = 0,
                                         processingTimeMs = endTime clock - startTime clock \<rparr>,
                 fallbackOptions = [] \<rparr>"
  using assms
  by (simp add: indexCodebase_def indexCodebaseBody_def createAnalysisError_def
        FILE_INDEXING_FAILED_def)

lemma message_mentions_no_files:
  "includesStr ''File indexing failed: No files provided for indexing''
     ''No files provided for indexing''"
  by code_simp

lemma loopResult_records:
  assumes "int (length (accIndex (loopResult rx opts clock input))) < maxFiles opts"
    and "f \<in> set (filterFiles (files input))"
  shows "(\<forall>msg. indexerShouldIgnoreFile rx opts (path f) = Inl msg
            \<longrightarrow> errorMessageFor f msg \<in> set (accErrors (loopResult rx opts clock input)))
       \<and> (indexerShouldIgnoreFile rx opts (path f) = Inr False \<and> fileSize f > maxFileSize opts
            \<longrightarrow> sizeWarningFor f \<in> set (accWarnings (loopResult rx opts clock input)))
       \<and> (admitted rx opts f
            \<longrightarrow> path f \<in> entryPath ` set (accIndex (loopResult rx opts clock input)))"
  using indexLoop_records [of rx opts clock "filterFiles (files input)" _ f] assms
    filterFiles_paths_normalized [OF assms(2)]
  unfolding loopResult_def Let_def by simp

lemma filterFiles_keeps_node_modules:
  "length (filter (\<lambda>f. 0 \<le> fileSize f \<and> includesStr (path f) ''node_modules/'') fs)
     \<le> length (filter (\<lambda>f. shouldIgnoreFile (path f)) (filterFiles fs))"
proof (induction fs)
  case Nil
  then show ?case by simp
next
  case (Cons f fs)
  show ?case
  proof (cases "0 \<le> fileSize f \<and> includesStr (path f) ''node_modules/''")
    case True
    then have "path f \<noteq> []" by auto
    moreover from True have "shouldIgnoreFile (normalizePath (path f))"
      by (simp add: normalizePath_keeps_node_modules node_modules_ignored)
    ultimately show ?thesis using True Cons by simp
  next
    case False
    with Cons show ?thesis by (auto intro: le_SucI)
  qed
qed


lemma entriesOf_member:
  "e \<in> set (entriesOf opts clock n gs)
     \<Longrightarrow> \<exists>g \<in> set gs. \<exists>t. e = createFileIndexEntry opts t g"
  by (induction gs arbitrary: n) (auto simp: entriesOf_simps)

lemma length_entriesOf: "length (entriesOf opts clock n gs) = length gs"
  by (simp add: entriesOf_def)

text \<open>Where an entry of the loop comes from: an admitted file of the filtered input.\<close>

lemma loopResult_entry_origin:
  assumes "e \<in> set (accIndex (loopResult rx opts clock input))"
  shows "\<exists>g \<in> set (filterFiles (files input)).
           admitted rx opts g \<and> (\<exists>t. e = createFileIndexEntry opts t g)"
proof -
  let ?st0 = "\<lparr> accIndex = [], accTotalSize = 0, accIgnored = 0, accErrors = [],
             accWarnings = (if filterFiles (files input) = []
                            then [''No files remaining after filtering''] else []) \<rparr>"
  from indexLoop_entries [of "filterFiles (files input)" rx opts clock ?st0]
  obtain gs where gs: "subseq gs (filterFiles (files input))" "\<forall>g \<in> set gs. admitted rx opts g"
    "accIndex (loopResult rx opts clock input) = entriesOf opts clock 0 gs"
    by (auto simp: loopResult_def Let_def)
  from assms gs(3) entriesOf_member [of e opts clock 0 gs]
  obtain g t where g: "g \<in> set gs" "e = createFileIndexEntry opts t g"
    by auto
  from gs(1) g(1) have "g \<in> set (filterFiles (files input))"
    by (auto dest: list_emb_set)
  with gs(2) g show ?thesis by blast
qed

lemma loopResult_entry_paths:
  assumes "e \<in> set (accIndex (loopResult rx opts clock input))"
  shows "\<not> shouldIgnoreFile (entryPath e)"
proof -
  from loopResult_entry_origin [OF assms]
  obtain g t where g: "g \<in> set (filterFiles (files input))" "admitted rx opts g"
    "e = createFileIndexEntry opts t g"
    by blast
  from g(3) have "entryPath e = normalizePath (path g)"
    by (simp add: createFileIndexEntry_def Let_def)
  then have "entryPath e = path g"
    using filterFiles_paths_normalized [OF g(1)] by simp
  moreover from g(2) have "\<not> shouldIgnoreFile (path g)"
    by (auto simp: admitted_def indexerShouldIgnoreFile_def split: if_splits)
  ultimately show ?thesis by simp
qed

lemma loopResult_length:
  "length (accIndex (loopResult rx opts clock input)) \<le> length (files input)"
proof -
  from loopResult_entries [of input rx opts clock]
  obtain fs where fs: "subseq fs (files input)"
    "accIndex (loopResult rx opts clock input) = entriesOf opts clock 0 (map normalized fs)"
    by blast
  from fs(1) have "length fs \<le> length (files input)" by (rule list_emb_length)
  with fs(2) show ?thesis by (simp add: length_entriesOf)
qed

lemma filesIndexed_le:
  assumes "indexCodebase rx opts clock input = Inr r"
  shows "filesIndexed (runStatistics r) \<le> length (files input)"
proof -
  from assms have ne: "files input \<noteq> []" by (rule indexCodebase_Inr_nonempty)
  from assms have "filesIndexed (runStatistics r) = length (accIndex (loopResult rx opts clock input))"
    unfolding indexCodebase_result [OF ne] by auto
  with loopResult_length [of rx opts clock input] show ?thesis by simp
qed

text \<open>The statistics and the index of a run, read off the files it examines.\<close>

lemma loopResult_exact:
  "accErrors (loopResult rx opts clock input)
     = concat (map (raisedErrors rx opts) (examinedFiles rx opts 0 (filterFiles (files input))))
   \<and> accWarnings (loopResult rx opts clock input)
     = (if filterFiles (files input) = [] then [''No files remaining after filtering''] else [])
       @ map sizeWarningFor
           (filter (tooBig rx opts) (examinedFiles rx opts 0 (filterFiles (files input))))
       @ (if limitReached rx opts 0 (examinedFiles rx opts 0 (filterFiles (files input)))
          then [limitWarningFor opts] else [])
   \<and> accIgnored (loopResult rx opts clock input)
     = length (filter (countedAsIgnored rx opts)
                 (examinedFiles rx opts 0 (filterFiles (files input))))
   \<and> accIndex (loopResult rx opts clock input)
     = entriesOf opts clock 0
         (filter (admitted rx opts) (examinedFiles rx opts 0 (filterFiles (files input))))
   \<and> accTotalSize (loopResult rx opts clock input)
     = sum_list (map fileSize
         (filter (admitted rx opts) (examinedFiles rx opts 0 (filterFiles (files input)))))"
  using indexLoop_exact [of rx opts clock "filterFiles (files input)"
          "\<lparr> accIndex = [], accTotalSize = 0, accIgnored = 0, accErrors = [],
             accWarnings = (if filterFiles (files input) = []
                            then [''No files remaining after filtering''] else []) \<rparr>"]
  by (simp add: loopResult_def Let_def)

lemma indexCodebase_exact:
  assumes "indexCodebase rx opts clock input = Inr r"
  shows "errors (runStatistics r)
     = concat (map (raisedErrors rx opts) (examinedFiles rx opts 0 (filterFiles (files input))))
   \<and> warnings (runStatistics r)
     = (if filterFiles (files input) = [] then [''No files remaining after filtering''] else [])
       @ map sizeWarningFor
           (filter (tooBig rx opts) (examinedFiles rx opts 0 (filterFiles (files input))))
       @ (if limitReached rx opts 0 (examinedFiles rx opts 0 (filterFiles (files input)))
          then [limitWarningFor opts] else [])
   \<and> filesIgnored (runStatistics r)
     = length (filter (countedAsIgnored rx opts)
                 (examinedFiles rx opts 0 (filterFiles (files input))))
   \<and> filesIndexed (runStatistics r)
     = length (filter (admitted rx opts) (examinedFiles rx opts 0 (filterFiles (files input))))
   \<and> fileIndex (index r)
     = sortBy byScoreDescending
         (entriesOf opts clock 0
            (filter (admitted rx opts) (examinedFiles rx opts 0 (filterFiles (files input)))))"
proof -
  from assms have ne: "files input \<noteq> []" by (rule indexCodebase_Inr_nonempty)
  from assms have r:
    "errors (runStatistics r) = accErrors (loopResult rx opts clock input)"
    "warnings (runStatistics r) = accWarnings (loopResult rx opts clock input)"
    "filesIgnored (runStatistics r) = accIgnored (loopResult rx opts clock input)"
    "filesIndexed (runStatistics r) = length (accIndex (loopResult rx opts clock input))"
    "fileIndex (index r) = sortBy byScoreDescending (accIndex (loopResult rx opts clock input))"
    unfolding indexCodebase_result [OF ne] by auto
  show ?thesis
    unfolding r using loopResult_exact [of rx opts clock input]
    by (simp add: length_entriesOf)
qed

lemma length_filter_mono:
  "(\<And>x. x \<in> set xs \<Longrightarrow> P x \<Longrightarrow> Q x) \<Longrightarrow> length (filter P xs) \<le> length (filter Q xs)"
  by (induction xs) (auto intro: le_SucI)

lemma prefix_map_ex:
  assumes "prefix ds (map h ys)"
  shows "\<exists>gs. prefix gs ys \<and> ds = map h gs"
proof -
  from assms obtain zs where "map h ys = ds @ zs" by (auto simp: prefix_def)
  then have "take (length ds) (map h ys) = ds" by simp
  then obtain k where "ds = take k (map h ys)" by metis
  then have "ds = map h (take k ys)" by (simp add: take_map)
  moreover have "prefix (take k ys) ys" by (rule take_is_prefix)
  ultimately show ?thesis by blast
qed

section \<open>The order of the index\<close>

text \<open>
  C1. When \<^verbatim>\<open>indexCodebase\<close> returns, the scores along \<open>fileIndex\<close> never increase, and
  entries with equal scores keep the order of the input: there are input files \<open>fs\<close>,
  in the order of the input, such that for every score the entries of \<open>fileIndex\<close> with
  that score are, in the same order, the entries built from \<open>fs\<close> with that score.
\<close>

theorem fileIndex_sorted_stable:
  assumes "indexCodebase rx opts clock input = Inr r"
  shows "sorted_wrt (\<lambda>a b. score (importance b) \<le> score (importance a)) (fileIndex (index r))
    \<and> (\<exists>fs. subseq fs (files input)
          \<and> (\<forall>k. filter (\<lambda>e. score (importance e) = k) (fileIndex (index r))
                 = filter (\<lambda>e. score (importance e) = k)
                     (entriesOf opts clock 0 (map normalized fs))))"
proof -
  from assms have ne: "files input \<noteq> []" by (rule indexCodebase_Inr_nonempty)
  from assms have r: "fileIndex (index r)
                        = sortBy byScoreDescending (accIndex (loopResult rx opts clock input))"
    unfolding indexCodebase_result [OF ne] by auto
  from loopResult_entries [of input rx opts clock] obtain fs where fs: "subseq fs (files input)"
    "accIndex (loopResult rx opts clock input) = entriesOf opts clock 0 (map normalized fs)"
    by blast
  have "sorted_wrt (\<lambda>a b. score (importance b) \<le> score (importance a)) (fileIndex (index r))"
    unfolding r by (rule sortBy_sorted)
  moreover have "\<forall>k. filter (\<lambda>e. score (importance e) = k) (fileIndex (index r))
                 = filter (\<lambda>e. score (importance e) = k)
                     (entriesOf opts clock 0 (map normalized fs))"
    unfolding r fs(2) [symmetric] by (simp add: sortBy_stable)
  ultimately show ?thesis using fs(1) by blast
qed

lemma tie_nonempty: "files tieInput \<noteq> []"
  by (simp add: tieInput_def)

lemma tie_index:
  "map (\<lambda>e. (entryPath e, score (importance e)))
     (fileIndex (index (projr (indexCodebase sampleEngine defaultOptions sampleClock tieInput))))
     = [(''src/index.ts'', 110), (''src/main.ts'', 110), (''src/utils/helper.ts'', 30)]"
  by code_simp

theorem fileIndex_sorted_stable_witness:
  "indexCodebase sampleEngine defaultOptions sampleClock tieInput
     = Inr (projr (indexCodebase sampleEngine defaultOptions sampleClock tieInput))
   \<and> map (\<lambda>e. (entryPath e, score (importance e)))
        (fileIndex (index (projr (indexCodebase sampleEngine defaultOptions sampleClock tieInput))))
       = [(''src/index.ts'', 110), (''src/main.ts'', 110), (''src/utils/helper.ts'', 30)]
   \<and> sorted_wrt (\<lambda>a b. score (importance b) \<le> score (importance a))
        (fileIndex (index (projr (indexCodebase sampleEngine defaultOptions sampleClock tieInput))))
   \<and> (\<exists>fs. subseq fs (files tieInput)
          \<and> (\<forall>k. filter (\<lambda>e. score (importance e) = k)
                   (fileIndex (index (projr (indexCodebase sampleEngine defaultOptions
                                               sampleClock tieInput))))
                 = filter (\<lambda>e. score (importance e) = k)
                     (entriesOf defaultOptions sampleClock 0 (map normalized fs))))"
proof -
  have run: "indexCodebase sampleEngine defaultOptions sampleClock tieInput
     = Inr (projr (indexCodebase sampleEngine defaultOptions sampleClock tieInput))"
    using indexCodebase_result [OF tie_nonempty] by simp
  from fileIndex_sorted_stable [OF run] run tie_index show ?thesis by blast
qed

section \<open>Failure of the indexer\<close>

text \<open>
  C2. \<^verbatim>\<open>indexCodebase\<close> throws exactly when the list of files is empty. The error
  then has the code \<^verbatim>\<open>FILE_INDEXING_FAILED\<close> and the category analysis, is not
  recoverable, has a message that contains \<^verbatim>\<open>No files provided for indexing\<close>, and
  carries three counters and no index. For a list that is not empty the call returns a
  result. The files it examines are the files that passed the validity filter, all of
  them or, when the limit \<open>maxFiles\<close> is reached, those up to the file that filled the
  index. \<open>errors\<close> holds, in order, one message for every examined file whose ignore
  check raised; \<open>warnings\<close> holds, in order, one message for every examined file over
  the size limit, after the notice of an empty filter result and before the notice of the
  limit; and \<open>fileIndex\<close> is the sorted list of the entries of the other examined files
  that are not ignored. In particular, when the run ends below \<open>maxFiles\<close>, every file
  that passed the validity filter was processed.
\<close>

theorem indexCodebase_throws_iff_no_files:
  "((\<exists>e. indexCodebase rx opts clock input = Inl e) = (files input = []))
   \<and> (files input = [] \<longrightarrow>
        (\<exists>e. indexCodebase rx opts clock input = Inl e
             \<and> code e = ''FILE_INDEXING_FAILED''
             \<and> errorCategory e = Analysis
             \<and> \<not> recoverable e
             \<and> includesStr (message e) ''No files provided for indexing''
             \<and> partialResults e = Some \<lparr> processedFiles = 0, totalFiles = 0,
                                         processingTimeMs = endTime clock - startTime clock \<rparr>))
   \<and> (files input \<noteq> [] \<longrightarrow>
        (\<exists>r. indexCodebase rx opts clock input = Inr r
             \<and> prefix (examinedFiles rx opts 0 (filterFiles (files input)))
                  (filterFiles (files input))
             \<and> (examinedFiles rx opts 0 (filterFiles (files input)) = filterFiles (files input)
                  \<or> limitReached rx opts 0 (examinedFiles rx opts 0 (filterFiles (files input))))
             \<and> errors (runStatistics r)
                 = concat (map (raisedErrors rx opts)
                             (examinedFiles rx opts 0 (filterFiles (files input))))
             \<and> warnings (runStatistics r)
                 = (if filterFiles (files input) = []
                    then [''No files remaining after filtering''] else [])
                   @ map sizeWarningFor
                       (filter (tooBig rx opts)
                          (examinedFiles rx opts 0 (filterFiles (files input))))
                   @ (if limitReached rx opts 0
                           (examinedFiles rx opts 0 (filterFiles (files input)))
                      then [limitWarningFor opts] else [])
             \<and> fileIndex (index r)
                 = sortBy byScoreDescending
                     (entriesOf opts clock 0
                        (filter (admitted rx opts)
                           (examinedFiles rx opts 0 (filterFiles (files input)))))
             \<and> (int (filesIndexed (runStatistics r)) < maxFiles opts \<longrightarrow>
                  (\<forall>f \<in> set (filterFiles (files input)).
                     (\<forall>msg. indexerShouldIgnoreFile rx opts (path f) = Inl msg
                         \<longrightarrow> errorMessageFor f msg \<in> set (errors (runStatistics r)))
                   \<and> (indexerShouldIgnoreFile rx opts (path f) = Inr False
                        \<and> fileSize f > maxFileSize opts
                         \<longrightarrow> sizeWarningFor f \<in> set (warnings (runStatistics r)))
                   \<and> (admitted rx opts f
                         \<longrightarrow> path f \<in> entryPath ` set (fileIndex (index r)))))))"
proof (intro conjI impI)
  show "(\<exists>e. indexCodebase rx opts clock input = Inl e) = (files input = [])"
    by (simp add: indexCodebase_def indexCodebaseBody_def Let_def)
next
  assume "files input = []"
  from indexCodebase_error [OF this, of rx opts clock] message_mentions_no_files
  show "\<exists>e. indexCodebase rx opts clock input = Inl e
             \<and> code e = ''FILE_INDEXING_FAILED''
             \<and> errorCategory e = Analysis
             \<and> \<not> recoverable e
             \<and> includesStr (message e) ''No files provided for indexing''
             \<and> partialResults e = Some \<lparr> processedFiles = 0, totalFiles = 0,
                                         processingTimeMs = endTime clock - startTime clock \<rparr>"
    by simp
next
  assume ne: "files input \<noteq> []"
  let ?st = "loopResult rx opts clock input"
  let ?done = "examinedFiles rx opts 0 (filterFiles (files input))"
  from indexCodebase_result [OF ne, of rx opts clock] obtain r
    where run: "indexCodebase rx opts clock input = Inr r"
    by blast
  from run have r:
    "filesIndexed (runStatistics r) = length (accIndex ?st)"
    "errors (runStatistics r) = accErrors ?st"
    "warnings (runStatistics r) = accWarnings ?st"
    "fileIndex (index r) = sortBy byScoreDescending (accIndex ?st)"
    unfolding indexCodebase_result [OF ne] by auto
  have a: "prefix ?done (filterFiles (files input))"
    by (rule prefix_examinedFiles)
  have b: "?done = filterFiles (files input) \<or> limitReached rx opts 0 ?done"
    by (rule examinedFiles_all_or_limit)
  from indexCodebase_exact [OF run]
  have c: "errors (runStatistics r) = concat (map (raisedErrors rx opts) ?done)"
    and d: "warnings (runStatistics r)
              = (if filterFiles (files input) = []
                 then [''No files remaining after filtering''] else [])
                @ map sizeWarningFor (filter (tooBig rx opts) ?done)
                @ (if limitReached rx opts 0 ?done then [limitWarningFor opts] else [])"
    and e: "fileIndex (index r)
              = sortBy byScoreDescending
                  (entriesOf opts clock 0 (filter (admitted rx opts) ?done))"
    by blast+
  have f: "int (filesIndexed (runStatistics r)) < maxFiles opts \<longrightarrow>
          (\<forall>f \<in> set (filterFiles (files input)).
             (\<forall>msg. indexerShouldIgnoreFile rx opts (path f) = Inl msg
                 \<longrightarrow> errorMessageFor f msg \<in> set (errors (runStatistics r)))
           \<and> (indexerShouldIgnoreFile rx opts (path f) = Inr False
                \<and> fileSize f > maxFileSize opts
                 \<longrightarrow> sizeWarningFor f \<in> set (warnings (runStatistics r)))
           \<and> (admitted rx opts f
                 \<longrightarrow> path f \<in> entryPath ` set (fileIndex (index r))))"
    unfolding r using loopResult_records [of rx opts clock input] by (simp add: set_sortBy)
  from run a b c d e f
  show "\<exists>r. indexCodebase rx opts clock input = Inr r
             \<and> prefix (examinedFiles rx opts 0 (filterFiles (files input)))
                  (filterFiles (files input))
             \<and> (examinedFiles rx opts 0 (filterFiles (files input)) = filterFiles (files input)
                  \<or> limitReached rx opts 0 (examinedFiles rx opts 0 (filterFiles (files input))))
             \<and> errors (runStatistics r)
                 = concat (map (raisedErrors rx opts)
                             (examinedFiles rx opts 0 (filterFiles (files input))))
             \<and> warnings (runStatistics r)
                 = (if filterFiles (files input) = []
                    then [''No files remaining after filtering''] else [])
                   @ map sizeWarningFor
                       (filter (tooBig rx opts)
                          (examinedFiles rx opts 0 (filterFiles (files input))))
                   @ (if limitReached rx opts 0
                           (examinedFiles rx opts 0 (filterFiles (files input)))
                      then [limitWarningFor opts] else [])
             \<and> fileIndex (index r)
                 = sortBy byScoreDescending
                     (entriesOf opts clock 0
                        (filter (admitted rx opts)
                           (examinedFiles rx opts 0 (filterFiles (files input)))))
             \<and> (int (filesIndexed (runStatistics r)) < maxFiles opts \<longrightarrow>
                  (\<forall>f \<in> set (filterFiles (files input)).
                     (\<forall>msg. indexerShouldIgnoreFile rx opts (path f) = Inl msg
                         \<longrightarrow> errorMessageFor f msg \<in> set (errors (runStatistics r)))
                   \<and> (indexerShouldIgnoreFile rx opts (path f) = Inr False
                        \<and> fileSize f > maxFileSize opts
                         \<longrightarrow> sizeWarningFor f \<in> set (warnings (runStatistics r)))
                   \<and> (admitted rx opts f
                         \<longrightarrow> path f \<in> entryPath ` set (fileIndex (index r)))))"
    by (intro exI conjI)
qed

lemma sample_nonempty: "files sampleInput \<noteq> []"
  by (simp add: sampleInput_def)

lemma sample_length: "length (files sampleInput) = 8"
  by (simp add: sampleInput_def)

lemma empty_input_files: "files \<lparr> files = [] \<rparr> = []"
  by simp

lemma broken_limit: "maxFiles brokenPatternOptions = 10000"
  by (simp add: brokenPatternOptions_def defaultOptions_def)

lemma readme_filtered: "readme \<in> set (filterFiles (files sampleInput))"
  by code_simp

lemma readme_raises:
  "indexerShouldIgnoreFile sampleEngine brokenPatternOptions (path readme)
     = Inl ''Unterminated group''"
  by code_simp

text \<open>
  A run that reaches the limit: the file under \<^verbatim>\<open>node_modules/\<close> and the file over the
  size limit come before the file that fills the index, and \<^verbatim>\<open>src/main.ts\<close> is not
  examined.
\<close>

lemma atLimit_nonempty: "files atLimitInput \<noteq> []"
  by (simp add: atLimitInput_def)

lemma atLimit_examined:
  "examinedFiles sampleEngine cutoffOptions 0 (filterFiles (files atLimitInput))
     = [nodeModulesFile, hugeFile, indexTs]"
  by code_simp

lemma atLimit_errors:
  "concat (map (raisedErrors sampleEngine cutoffOptions) [nodeModulesFile, hugeFile, indexTs])
     = []"
  by code_simp

lemma atLimit_filtered: "filterFiles (files atLimitInput) \<noteq> []"
  by code_simp

lemma atLimit_tooBig:
  "filter (tooBig sampleEngine cutoffOptions) [nodeModulesFile, hugeFile, indexTs] = [hugeFile]"
  by code_simp

lemma atLimit_limitReached:
  "limitReached sampleEngine cutoffOptions 0 [nodeModulesFile, hugeFile, indexTs]"
  by code_simp

lemma atLimit_warnings:
  "(if filterFiles (files atLimitInput) = []
    then [''No files remaining after filtering''] else [])
   @ map sizeWarningFor
       (filter (tooBig sampleEngine cutoffOptions) [nodeModulesFile, hugeFile, indexTs])
   @ (if limitReached sampleEngine cutoffOptions 0 [nodeModulesFile, hugeFile, indexTs]
      then [limitWarningFor cutoffOptions] else [])
     = [sizeWarningFor hugeFile, limitWarningFor cutoffOptions]"
  using atLimit_filtered atLimit_limitReached unfolding atLimit_tooBig by simp

lemma cutoff_limit_warning:
  "limitWarningFor cutoffOptions = ''Reached maximum file limit (1), stopping indexing''"
  by code_simp

lemma atLimit_counted:
  "length (filter (countedAsIgnored sampleEngine cutoffOptions)
             [nodeModulesFile, hugeFile, indexTs]) = 2"
  by code_simp

lemma atLimit_admitted:
  "length (filter (admitted sampleEngine cutoffOptions)
             [nodeModulesFile, hugeFile, indexTs]) = 1"
  by code_simp

lemma cutoff_limit: "maxFiles cutoffOptions = 1"
  by (simp add: cutoffOptions_def)

lemma broken_errors:
  "concat (map (raisedErrors sampleEngine brokenPatternOptions)
             (examinedFiles sampleEngine brokenPatternOptions 0
                (filterFiles (files sampleInput))))
     = [''Error processing file README.md: Unterminated group'',
        ''Error processing file src/utils/helper.ts: Unterminated group'',
        ''Error processing file src/index.ts: Unterminated group'',
        ''Error processing file package.json: Unterminated group'',
        ''Error processing file src/main.ts: Unterminated group'',
        ''Error processing file assets/video.bin: Unterminated group'',
        ''Error processing file src/components/Button.test.ts: Unterminated group'']"
  by code_simp

theorem indexCodebase_throws_iff_no_files_witness:
  "(\<exists>e. indexCodebase sampleEngine defaultOptions sampleClock \<lparr> files = [] \<rparr> = Inl e
        \<and> code e = ''FILE_INDEXING_FAILED'' \<and> errorCategory e = Analysis \<and> \<not> recoverable e
        \<and> includesStr (message e) ''No files provided for indexing'')
   \<and> files sampleInput \<noteq> []
   \<and> (\<exists>r. indexCodebase sampleEngine brokenPatternOptions sampleClock sampleInput = Inr r
        \<and> int (filesIndexed (runStatistics r)) < maxFiles brokenPatternOptions
        \<and> readme \<in> set (filterFiles (files sampleInput))
        \<and> indexerShouldIgnoreFile sampleEngine brokenPatternOptions (path readme)
            = Inl ''Unterminated group''
        \<and> errorMessageFor readme ''Unterminated group'' \<in> set (errors (runStatistics r))
        \<and> errors (runStatistics r)
            = [''Error processing file README.md: Unterminated group'',
               ''Error processing file src/utils/helper.ts: Unterminated group'',
               ''Error processing file src/index.ts: Unterminated group'',
               ''Error processing file package.json: Unterminated group'',
               ''Error processing file src/main.ts: Unterminated group'',
               ''Error processing file assets/video.bin: Unterminated group'',
               ''Error processing file src/components/Button.test.ts: Unterminated group''])
   \<and> files atLimitInput \<noteq> []
   \<and> (\<exists>r. indexCodebase sampleEngine cutoffOptions sampleClock atLimitInput = Inr r
        \<and> examinedFiles sampleEngine cutoffOptions 0 (filterFiles (files atLimitInput))
            = [nodeModulesFile, hugeFile, indexTs]
        \<and> errors (runStatistics r) = []
        \<and> warnings (runStatistics r)
            = [sizeWarningFor hugeFile, limitWarningFor cutoffOptions])"
proof -
  from indexCodebase_throws_iff_no_files
         [of sampleEngine defaultOptions sampleClock "\<lparr> files = [] \<rparr>"]
       empty_input_files
  have a: "\<exists>e. indexCodebase sampleEngine defaultOptions sampleClock \<lparr> files = [] \<rparr> = Inl e
        \<and> code e = ''FILE_INDEXING_FAILED'' \<and> errorCategory e = Analysis \<and> \<not> recoverable e
        \<and> includesStr (message e) ''No files provided for indexing''"
    by blast
  from indexCodebase_throws_iff_no_files
         [of sampleEngine brokenPatternOptions sampleClock sampleInput]
       sample_nonempty
  obtain r where r: "indexCodebase sampleEngine brokenPatternOptions sampleClock sampleInput = Inr r"
    and all: "errors (runStatistics r)
                = concat (map (raisedErrors sampleEngine brokenPatternOptions)
                            (examinedFiles sampleEngine brokenPatternOptions 0
                               (filterFiles (files sampleInput))))"
    and acc: "int (filesIndexed (runStatistics r)) < maxFiles brokenPatternOptions \<longrightarrow>
                (\<forall>f \<in> set (filterFiles (files sampleInput)).
                   (\<forall>msg. indexerShouldIgnoreFile sampleEngine brokenPatternOptions (path f) = Inl msg
                       \<longrightarrow> errorMessageFor f msg \<in> set (errors (runStatistics r))))"
    by blast
  from filesIndexed_le [OF r] have below: "int (filesIndexed (runStatistics r)) < maxFiles brokenPatternOptions"
    by (simp add: broken_limit sample_length)
  with acc readme_filtered readme_raises
  have "errorMessageFor readme ''Unterminated group'' \<in> set (errors (runStatistics r))"
    by blast
  with r below readme_filtered readme_raises all [unfolded broken_errors]
  have b: "\<exists>r. indexCodebase sampleEngine brokenPatternOptions sampleClock sampleInput = Inr r
        \<and> int (filesIndexed (runStatistics r)) < maxFiles brokenPatternOptions
        \<and> readme \<in> set (filterFiles (files sampleInput))
        \<and> indexerShouldIgnoreFile sampleEngine brokenPatternOptions (path readme)
            = Inl ''Unterminated group''
        \<and> errorMessageFor readme ''Unterminated group'' \<in> set (errors (runStatistics r))
        \<and> errors (runStatistics r)
            = [''Error processing file README.md: Unterminated group'',
               ''Error processing file src/utils/helper.ts: Unterminated group'',
               ''Error processing file src/index.ts: Unterminated group'',
               ''Error processing file package.json: Unterminated group'',
               ''Error processing file src/main.ts: Unterminated group'',
               ''Error processing file assets/video.bin: Unterminated group'',
               ''Error processing file src/components/Button.test.ts: Unterminated group'']"
    by (intro exI conjI)
  from indexCodebase_throws_iff_no_files
         [of sampleEngine cutoffOptions sampleClock atLimitInput]
       atLimit_nonempty
  obtain r' where r': "indexCodebase sampleEngine cutoffOptions sampleClock atLimitInput = Inr r'"
    and errs: "errors (runStatistics r')
                 = concat (map (raisedErrors sampleEngine cutoffOptions)
                             (examinedFiles sampleEngine cutoffOptions 0
                                (filterFiles (files atLimitInput))))"
    and warns: "warnings (runStatistics r')
                 = (if filterFiles (files atLimitInput) = []
                    then [''No files remaining after filtering''] else [])
                   @ map sizeWarningFor
                       (filter (tooBig sampleEngine cutoffOptions)
                          (examinedFiles sampleEngine cutoffOptions 0
                             (filterFiles (files atLimitInput))))
                   @ (if limitReached sampleEngine cutoffOptions 0
                           (examinedFiles sampleEngine cutoffOptions 0
                              (filterFiles (files atLimitInput)))
                      then [limitWarningFor cutoffOptions] else [])"
    by blast
  from r' errs [unfolded atLimit_examined atLimit_errors]
    warns [unfolded atLimit_examined atLimit_warnings] atLimit_examined
  have c: "\<exists>r. indexCodebase sampleEngine cutoffOptions sampleClock atLimitInput = Inr r
        \<and> examinedFiles sampleEngine cutoffOptions 0 (filterFiles (files atLimitInput))
            = [nodeModulesFile, hugeFile, indexTs]
        \<and> errors (runStatistics r) = []
        \<and> warnings (runStatistics r)
            = [sizeWarningFor hugeFile, limitWarningFor cutoffOptions]"
    by blast
  from a sample_nonempty b atLimit_nonempty c show ?thesis by (intro conjI)
qed

section \<open>Files under \<^verbatim>\<open>node_modules/\<close>\<close>

text \<open>
  C5, at a concrete input. With room for one entry, the valid file \<^verbatim>\<open>src/index.ts\<close>
  fills the index and the loop stops; the file \<^verbatim>\<open>node_modules/some-package/index.js\<close>
  after it is never looked at, and \<open>filesIgnored\<close> is 0.
\<close>

theorem node_modules_not_counted_after_cutoff:
  "includesStr (path nodeModulesFile) ''node_modules/''
   \<and> nodeModulesFile \<in> set (files cutoffInput)
   \<and> \<not> isl (indexCodebase sampleEngine cutoffOptions sampleClock cutoffInput)
   \<and> filesIgnored (runStatistics
        (projr (indexCodebase sampleEngine cutoffOptions sampleClock cutoffInput))) = 0"
  by code_simp

text \<open>A file dropped by the validity filter is not counted either.\<close>

lemma node_modules_not_counted_when_invalid:
  "\<not> isl (indexCodebase sampleEngine defaultOptions sampleClock negativeSizeInput)
   \<and> filesIgnored (runStatistics
        (projr (indexCodebase sampleEngine defaultOptions sampleClock negativeSizeInput))) = 0"
  by code_simp

lemma node_modules_counted:
  assumes "includesStr (path f) ''node_modules/''"
  shows "countedAsIgnored rx opts (normalized f)"
  using normalizePath_keeps_node_modules [OF assms]
  by (simp add: countedAsIgnored_def normalized_def indexerShouldIgnoreFile_def
        node_modules_ignored)

text \<open>
  The examined files come from a prefix of the valid input files, and each of these with
  a path under \<^verbatim>\<open>node_modules/\<close> is counted.
\<close>

lemma examined_from_input:
  "\<exists>gs. prefix gs (filter (\<lambda>f. path f \<noteq> [] \<and> \<not> fileSize f < 0) (files input))
        \<and> examinedFiles rx opts 0 (filterFiles (files input)) = map normalized gs
        \<and> length (filter (\<lambda>f. includesStr (path f) ''node_modules/'') gs)
            \<le> length (filter (countedAsIgnored rx opts)
                        (examinedFiles rx opts 0 (filterFiles (files input))))"
proof -
  from prefix_examinedFiles [of rx opts 0 "filterFiles (files input)"]
  have "prefix (examinedFiles rx opts 0 (filterFiles (files input)))
          (map normalized (filter (\<lambda>f. path f \<noteq> [] \<and> \<not> fileSize f < 0) (files input)))"
    by (simp add: filterFiles_map_filter)
  from prefix_map_ex [OF this] obtain gs
    where gs: "prefix gs (filter (\<lambda>f. path f \<noteq> [] \<and> \<not> fileSize f < 0) (files input))"
      "examinedFiles rx opts 0 (filterFiles (files input)) = map normalized gs"
    by blast
  have "length (filter (\<lambda>f. includesStr (path f) ''node_modules/'') gs)
          \<le> length (filter (\<lambda>f. countedAsIgnored rx opts (normalized f)) gs)"
    by (rule length_filter_mono) (rule node_modules_counted)
  also have "\<dots> = length (filter (countedAsIgnored rx opts) (map normalized gs))"
    by (simp add: filter_map comp_def)
  finally show ?thesis using gs by auto
qed

text \<open>
  C5, as the code has it. For every path that contains \<^verbatim>\<open>node_modules/\<close>,
  \<^verbatim>\<open>shouldIgnoreFile\<close> returns true, and a file with such a path is, once its path is
  normalised, one that a round of the loop counts as ignored. When \<^verbatim>\<open>indexCodebase\<close>
  returns, no entry of \<open>fileIndex\<close> has such a path, and \<open>filesIgnored\<close> is the number
  of counted files among the files the run examines: these are the valid input files
  with their paths normalised, all of them or, when the limit \<open>maxFiles\<close> is reached,
  those up to the file that filled the index. So every examined file with such a path is
  counted; and when the run ends below \<open>maxFiles\<close>, the input files with such a path
  and a size that is not negative are all counted.
\<close>

theorem node_modules_excluded:
  "(includesStr p ''node_modules/'' \<longrightarrow> shouldIgnoreFile p)
   \<and> (includesStr (path f) ''node_modules/'' \<longrightarrow> countedAsIgnored rx opts (normalized f))
   \<and> (indexCodebase rx opts clock input = Inr r \<longrightarrow>
        (\<forall>e \<in> set (fileIndex (index r)). \<not> includesStr (entryPath e) ''node_modules/'')
        \<and> filesIgnored (runStatistics r)
            = length (filter (countedAsIgnored rx opts)
                        (examinedFiles rx opts 0 (filterFiles (files input))))
        \<and> (\<exists>gs. prefix gs (filter (\<lambda>f. path f \<noteq> [] \<and> \<not> fileSize f < 0) (files input))
               \<and> examinedFiles rx opts 0 (filterFiles (files input)) = map normalized gs
               \<and> length (filter (\<lambda>f. includesStr (path f) ''node_modules/'') gs)
                   \<le> filesIgnored (runStatistics r))
        \<and> (examinedFiles rx opts 0 (filterFiles (files input)) = filterFiles (files input)
             \<or> limitReached rx opts 0 (examinedFiles rx opts 0 (filterFiles (files input))))
        \<and> (int (filesIndexed (runStatistics r)) < maxFiles opts \<longrightarrow>
             filesIgnored (runStatistics r)
               = length (filter (countedAsIgnored rx opts) (filterFiles (files input)))
             \<and> length (filter (\<lambda>f. 0 \<le> fileSize f \<and> includesStr (path f) ''node_modules/'')
                         (files input))
                 \<le> filesIgnored (runStatistics r)))"
proof (intro conjI impI)
  assume "includesStr p ''node_modules/''"
  then show "shouldIgnoreFile p" by (rule node_modules_ignored)
next
  assume "includesStr (path f) ''node_modules/''"
  then show "countedAsIgnored rx opts (normalized f)" by (rule node_modules_counted)
next
  assume run: "indexCodebase rx opts clock input = Inr r"
  from indexCodebase_exact [OF run]
  show "filesIgnored (runStatistics r)
          = length (filter (countedAsIgnored rx opts)
                      (examinedFiles rx opts 0 (filterFiles (files input))))"
    by blast
next
  assume run: "indexCodebase rx opts clock input = Inr r"
  from indexCodebase_exact [OF run]
  have "filesIgnored (runStatistics r)
          = length (filter (countedAsIgnored rx opts)
                      (examinedFiles rx opts 0 (filterFiles (files input))))"
    by blast
  with examined_from_input [of input rx opts]
  show "\<exists>gs. prefix gs (filter (\<lambda>f. path f \<noteq> [] \<and> \<not> fileSize f < 0) (files input))
               \<and> examinedFiles rx opts 0 (filterFiles (files input)) = map normalized gs
               \<and> length (filter (\<lambda>f. includesStr (path f) ''node_modules/'') gs)
                   \<le> filesIgnored (runStatistics r)"
    by simp
next
  show "examinedFiles rx opts 0 (filterFiles (files input)) = filterFiles (files input)
             \<or> limitReached rx opts 0 (examinedFiles rx opts 0 (filterFiles (files input)))"
    by (rule examinedFiles_all_or_limit)
next
  assume run: "indexCodebase rx opts clock input = Inr r"
    and below: "int (filesIndexed (runStatistics r)) < maxFiles opts"
  from run have ne: "files input \<noteq> []" by (rule indexCodebase_Inr_nonempty)
  from run have r:
    "filesIndexed (runStatistics r) = length (accIndex (loopResult rx opts clock input))"
    "filesIgnored (runStatistics r) = accIgnored (loopResult rx opts clock input)"
    unfolding indexCodebase_result [OF ne] by auto
  from below indexLoop_ignored_exact [of rx opts clock "filterFiles (files input)"]
  show "filesIgnored (runStatistics r)
          = length (filter (countedAsIgnored rx opts) (filterFiles (files input)))"
    unfolding r loopResult_def Let_def by fastforce
next
  assume run: "indexCodebase rx opts clock input = Inr r"
  then have ne: "files input \<noteq> []" by (rule indexCodebase_Inr_nonempty)
  from run have r: "fileIndex (index r)
                      = sortBy byScoreDescending (accIndex (loopResult rx opts clock input))"
    unfolding indexCodebase_result [OF ne] by auto
  show "\<forall>e \<in> set (fileIndex (index r)). \<not> includesStr (entryPath e) ''node_modules/''"
    unfolding r set_sortBy using loopResult_entry_paths node_modules_ignored by blast
next
  assume run: "indexCodebase rx opts clock input = Inr r"
    and below: "int (filesIndexed (runStatistics r)) < maxFiles opts"
  from run have ne: "files input \<noteq> []" by (rule indexCodebase_Inr_nonempty)
  from run have r:
    "filesIndexed (runStatistics r) = length (accIndex (loopResult rx opts clock input))"
    "filesIgnored (runStatistics r) = accIgnored (loopResult rx opts clock input)"
    unfolding indexCodebase_result [OF ne] by auto
  from below indexLoop_counts_ignored [of rx opts clock "filterFiles (files input)"]
  have "length (filter (\<lambda>f. shouldIgnoreFile (path f)) (filterFiles (files input)))
          \<le> filesIgnored (runStatistics r)"
    unfolding r loopResult_def Let_def by fastforce
  with filterFiles_keeps_node_modules [of "files input"]
  show "length (filter (\<lambda>f. 0 \<le> fileSize f \<and> includesStr (path f) ''node_modules/'')
                       (files input))
               \<le> filesIgnored (runStatistics r)"
    by (rule le_trans)
qed

lemma sample_node_modules: "includesStr (path nodeModulesFile) ''node_modules/''"
  by code_simp

lemma sample_node_modules_count:
  "length (filter (\<lambda>f. 0 \<le> fileSize f \<and> includesStr (path f) ''node_modules/'')
             (files sampleInput)) = 1"
  by code_simp

lemma default_limit: "maxFiles defaultOptions = 10000"
  by (simp add: defaultOptions_def)

theorem node_modules_excluded_witness:
  "includesStr (path nodeModulesFile) ''node_modules/''
   \<and> shouldIgnoreFile (path nodeModulesFile)
   \<and> indexCodebase sampleEngine defaultOptions sampleClock sampleInput
       = Inr (projr (indexCodebase sampleEngine defaultOptions sampleClock sampleInput))
   \<and> list_all (\<lambda>e. \<not> includesStr (entryPath e) ''node_modules/'')
        (fileIndex (index (projr (indexCodebase sampleEngine defaultOptions
                                    sampleClock sampleInput))))
   \<and> int (filesIndexed (runStatistics (projr (indexCodebase sampleEngine defaultOptions
                                              sampleClock sampleInput))))
       < maxFiles defaultOptions
   \<and> 1 \<le> filesIgnored (runStatistics (projr (indexCodebase sampleEngine defaultOptions
                                             sampleClock sampleInput)))
   \<and> indexCodebase sampleEngine cutoffOptions sampleClock atLimitInput
       = Inr (projr (indexCodebase sampleEngine cutoffOptions sampleClock atLimitInput))
   \<and> examinedFiles sampleEngine cutoffOptions 0 (filterFiles (files atLimitInput))
       = [nodeModulesFile, hugeFile, indexTs]
   \<and> int (filesIndexed (runStatistics (projr (indexCodebase sampleEngine cutoffOptions
                                              sampleClock atLimitInput))))
       = maxFiles cutoffOptions
   \<and> filesIgnored (runStatistics (projr (indexCodebase sampleEngine cutoffOptions
                                         sampleClock atLimitInput))) = 2"
proof -
  let ?r = "projr (indexCodebase sampleEngine defaultOptions sampleClock sampleInput)"
  let ?r' = "projr (indexCodebase sampleEngine cutoffOptions sampleClock atLimitInput)"
  have run: "indexCodebase sampleEngine defaultOptions sampleClock sampleInput = Inr ?r"
    using indexCodebase_result [OF sample_nonempty] by simp
  have below: "int (filesIndexed (runStatistics ?r)) < maxFiles defaultOptions"
    using filesIndexed_le [OF run] by (simp add: default_limit sample_length)
  from node_modules_excluded
         [of "path nodeModulesFile" nodeModulesFile sampleEngine defaultOptions sampleClock
             sampleInput ?r]
       sample_node_modules run below
  have "shouldIgnoreFile (path nodeModulesFile)"
    and "\<forall>e \<in> set (fileIndex (index ?r)). \<not> includesStr (entryPath e) ''node_modules/''"
    and "length (filter (\<lambda>f. 0 \<le> fileSize f \<and> includesStr (path f) ''node_modules/'')
                   (files sampleInput)) \<le> filesIgnored (runStatistics ?r)"
    by blast+
  with sample_node_modules run below sample_node_modules_count
  have a: "includesStr (path nodeModulesFile) ''node_modules/''
     \<and> shouldIgnoreFile (path nodeModulesFile)
     \<and> indexCodebase sampleEngine defaultOptions sampleClock sampleInput = Inr ?r
     \<and> list_all (\<lambda>e. \<not> includesStr (entryPath e) ''node_modules/'') (fileIndex (index ?r))
     \<and> int (filesIndexed (runStatistics ?r)) < maxFiles defaultOptions
     \<and> 1 \<le> filesIgnored (runStatistics ?r)"
    by (simp add: list_all_iff)
  have run': "indexCodebase sampleEngine cutoffOptions sampleClock atLimitInput = Inr ?r'"
    using indexCodebase_result [OF atLimit_nonempty] by simp
  from node_modules_excluded
         [of "path nodeModulesFile" nodeModulesFile sampleEngine cutoffOptions sampleClock
             atLimitInput ?r']
       run'
  have "filesIgnored (runStatistics ?r')
          = length (filter (countedAsIgnored sampleEngine cutoffOptions)
                      (examinedFiles sampleEngine cutoffOptions 0
                         (filterFiles (files atLimitInput))))"
    by blast
  then have ignored: "filesIgnored (runStatistics ?r') = 2"
    unfolding atLimit_examined atLimit_counted .
  from indexCodebase_exact [OF run']
  have "filesIndexed (runStatistics ?r')
          = length (filter (admitted sampleEngine cutoffOptions)
                      (examinedFiles sampleEngine cutoffOptions 0
                         (filterFiles (files atLimitInput))))"
    by blast
  then have "filesIndexed (runStatistics ?r') = 1"
    unfolding atLimit_examined atLimit_admitted .
  then have indexed: "int (filesIndexed (runStatistics ?r')) = maxFiles cutoffOptions"
    by (simp add: cutoff_limit)
  from a run' atLimit_examined indexed ignored show ?thesis by (intro conjI) blast+
qed

section \<open>Automatic type detection\<close>

lemma fileTypeDistribution_foldl:
  "fileTypeDistribution (foldl countEntry acc es) t
     = fileTypeDistribution acc t + length (filter (\<lambda>e. entryType e = t) es)"
  by (induction es arbitrary: acc) (auto simp: countEntry_def)

lemma fileTypeDistribution_counts:
  "fileTypeDistribution (calculateStatistics es) t = length (filter (\<lambda>e. entryType e = t) es)"
  by (simp add: calculateStatistics_def fileTypeDistribution_foldl)

lemma getFileType_values:
  "getFileType p c \<in> {Package, Config, Source, Test, Documentation, Asset}"
  by (simp add: getFileType_def Let_def)

lemma filterFiles_declaredType:
  "g \<in> set (filterFiles fs) \<Longrightarrow> \<exists>f \<in> set fs. declaredType g = declaredType f"
  by (induction fs) (auto split: if_splits)

lemma detected_entry_type:
  assumes "e \<in> set (accIndex (loopResult rx opts clock input))"
    and "customFileTypeRules opts = Map.empty"
    and "\<forall>f \<in> set (files input). declaredType f = None"
  shows "entryType e \<in> {Package, Config, Source, Test, Documentation, Asset}"
proof -
  from loopResult_entry_origin [OF assms(1)]
  obtain g t where g: "g \<in> set (filterFiles (files input))" "e = createFileIndexEntry opts t g"
    by blast
  from filterFiles_declaredType [OF g(1)] assms(3) have "declaredType g = None" by auto
  with g(2) assms(2)
  have "entryType e = getFileType (normalizePath (path g)) (Some (content g))"
    by (simp add: createFileIndexEntry_def Let_def)
  with getFileType_values show ?thesis by simp
qed

text \<open>
  C10. For every path and content, \<^verbatim>\<open>getFileType\<close> returns one of package, config,
  source, test, documentation and asset; it never returns build or schema. So when no
  file declares a type and there are no custom type rules, the build and schema counts of
  \<open>fileTypeDistribution\<close> are zero.
\<close>

theorem getFileType_six_values:
  "getFileType p c \<in> {Package, Config, Source, Test, Documentation, Asset}
   \<and> getFileType p c \<noteq> Build \<and> getFileType p c \<noteq> Schema
   \<and> (indexCodebase rx opts clock input = Inr r
        \<and> customFileTypeRules opts = Map.empty
        \<and> (\<forall>f \<in> set (files input). declaredType f = None)
       \<longrightarrow> fileTypeDistribution (statistics (index r)) Build = 0
           \<and> fileTypeDistribution (statistics (index r)) Schema = 0)"
proof (intro conjI impI)
  show "getFileType p c \<in> {Package, Config, Source, Test, Documentation, Asset}"
    by (rule getFileType_values)
  show "getFileType p c \<noteq> Build" "getFileType p c \<noteq> Schema"
    using getFileType_values [of p c] by auto
next
  assume a: "indexCodebase rx opts clock input = Inr r
        \<and> customFileTypeRules opts = Map.empty
        \<and> (\<forall>f \<in> set (files input). declaredType f = None)"
  then have ne: "files input \<noteq> []" by (auto dest: indexCodebase_Inr_nonempty)
  from a have r: "statistics (index r)
                    = calculateStatistics
                        (sortBy byScoreDescending (accIndex (loopResult rx opts clock input)))"
    unfolding indexCodebase_result [OF ne] by auto
  have types: "\<forall>e \<in> set (sortBy byScoreDescending (accIndex (loopResult rx opts clock input))).
                 entryType e \<in> {Package, Config, Source, Test, Documentation, Asset}"
    unfolding set_sortBy using detected_entry_type a by blast
  then show "fileTypeDistribution (statistics (index r)) Build = 0"
    unfolding r fileTypeDistribution_counts by (auto simp: filter_empty_conv)
  from types show "fileTypeDistribution (statistics (index r)) Schema = 0"
    unfolding r fileTypeDistribution_counts by (auto simp: filter_empty_conv)
qed

lemma undeclared_nonempty: "files undeclaredInput \<noteq> []"
  by (simp add: undeclaredInput_def)

lemma undeclared_types: "\<forall>f \<in> set (files undeclaredInput). declaredType f = None"
  by (simp add: undeclaredInput_def readme_def helperTs_def mainTs_def)

lemma default_rules: "customFileTypeRules defaultOptions = Map.empty"
  by (simp add: defaultOptions_def)

theorem getFileType_six_values_witness:
  "getFileType ''db/schema.graphql'' None = Source
   \<and> indexCodebase sampleEngine defaultOptions sampleClock undeclaredInput
       = Inr (projr (indexCodebase sampleEngine defaultOptions sampleClock undeclaredInput))
   \<and> customFileTypeRules defaultOptions = Map.empty
   \<and> list_all (\<lambda>f. declaredType f = None) (files undeclaredInput)
   \<and> fileTypeDistribution (statistics (index (projr (indexCodebase sampleEngine defaultOptions
         sampleClock undeclaredInput)))) Build = 0
   \<and> fileTypeDistribution (statistics (index (projr (indexCodebase sampleEngine defaultOptions
         sampleClock undeclaredInput)))) Schema = 0"
proof -
  let ?r = "projr (indexCodebase sampleEngine defaultOptions sampleClock undeclaredInput)"
  have ft: "getFileType ''db/schema.graphql'' None = Source" by code_simp
  have run: "indexCodebase sampleEngine defaultOptions sampleClock undeclaredInput = Inr ?r"
    using indexCodebase_result [OF undeclared_nonempty] by simp
  from getFileType_six_values
         [of "''db/schema.graphql''" None sampleEngine defaultOptions sampleClock
             undeclaredInput ?r]
       run default_rules undeclared_types ft
  show ?thesis unfolding list_all_iff by blast
qed

section \<open>The priority classifier on \<^verbatim>\<open>package.json\<close>\<close>

lemma pj_fileName: "fileNameOf ''package.json'' = ''package.json''"
  by code_simp
lemma pj_ext: "extensionOf ''package.json'' = ''json''"
  by code_simp
lemma pj_entry: "clsIsEntryPoint ''package.json'' ''package.json'' = False"
  by code_simp
lemma pj_config: "clsIsConfiguration ''package.json'' ''package.json'' None = False"
  by code_simp
lemma pj_package: "clsIsPackageDefinition ''package.json'' = True"
  by code_simp
lemma pj_schema: "clsIsSchema ''package.json'' ''package.json'' = False"
  by code_simp
lemma pj_infra: "clsIsInfrastructure ''package.json'' ''package.json'' = False"
  by code_simp
lemma pj_test: "clsIsTest ''package.json'' ''package.json'' = False"
  by code_simp
lemma pj_doc: "clsIsDocumentation ''package.json'' ''package.json'' None = False"
  by code_simp
lemma pj_gen: "clsIsGenerated ''package.json'' ''package.json'' (Some packageJsonContent) = False"
  by code_simp
lemma pj_role: "determineArchitecturalRole ''package.json'' ''package.json'' c None = Unknown"
  by code_simp
lemma pj_lines: "length (split (CHR 0x0A) packageJsonContent) = 1"
  by code_simp
lemma pj_nonempty: "packageJsonContent \<noteq> []"
  by code_simp

lemma pj_complexity: "analyzeContentComplexity rx packageJsonContent ''json'' = 0"
  by (simp add: analyzeContentComplexity_def pj_lines)

lemma pj_characteristics:
  "analyzeFileCharacteristics rx ''package.json'' (Some packageJsonContent) None =
   \<lparr> isEntryPoint = False, isConfiguration = False, isPackageDefinition = True,
     isSchema = False, isInfrastructure = False, isTest = False, isDocumentation = False,
     isGenerated = False,
     hasComplexLogic = clsHasComplexLogic rx (Some packageJsonContent),
     hasExternalDependencies = clsHasExternalDependencies rx (Some packageJsonContent),
     isPublicInterface = clsIsPublicInterface rx ''package.json'' ''package.json'' (Some packageJsonContent),
     architecturalRole = Unknown \<rparr>"
  by (simp add: analyzeFileCharacteristics_def Let_def pj_fileName pj_entry pj_config pj_package pj_schema
       pj_infra pj_test pj_doc pj_gen pj_role)


lemma pj_base: "calculateBaseScore ''package.json'' ''package.json'' ''json''
    (analyzeFileCharacteristics rx ''package.json'' (Some packageJsonContent) None)
   = 130 + bonus (clsIsPublicInterface rx ''package.json'' ''package.json'' (Some packageJsonContent)) 45"
  unfolding pj_characteristics calculateBaseScore_def
  by (simp add: bonus_def roleScore_def)

lemma pj_project: "getProjectTypeAdjustment defaultClassifierOptions ch = 0"
  by (simp add: getProjectTypeAdjustment_def defaultClassifierOptions_def)

lemma pj_lang: "getLanguageFrameworkAdjustment defaultClassifierOptions p c = 0"
  by (simp add: getLanguageFrameworkAdjustment_def defaultClassifierOptions_def
        languageAdjustment_def frameworkAdjustment_def)

lemma pj_rules: "applyCustomScoringRules rx defaultClassifierOptions p c = 0"
  by (simp add: applyCustomScoringRules_def defaultClassifierOptions_def)

lemma pj_content: "whenContent (Some packageJsonContent) f d = f packageJsonContent"
  by (simp add: whenContent_def pj_nonempty)

lemma pj_enabled: "enableContentAnalysis defaultClassifierOptions"
  by (simp add: defaultClassifierOptions_def)

lemma pj_classify:
  "classifyFile rx defaultClassifierOptions ''package.json'' (Some packageJsonContent) None =
    (let ch = analyzeFileCharacteristics rx ''package.json'' (Some packageJsonContent) None;
         s4 = 130 + bonus (clsIsPublicInterface rx ''package.json'' ''package.json'' (Some packageJsonContent)) 45;
         cr = determineCategory s4 ch;
         imp = \<lparr> score = max 0 (min 200 s4), reasons = snd cr, category = fst cr \<rparr>
     in \<lparr> clsImportance = imp, characteristics = ch, recommendations = generateRecommendations ch imp \<rparr>)"
  unfolding classifyFile_def pj_fileName pj_ext Let_def pj_base pj_project pj_lang pj_rules pj_content pj_complexity
  by (simp add: pj_enabled)

lemma pj_result:
  "category (clsImportance (classifyFile rx defaultClassifierOptions ''package.json''
       (Some packageJsonContent) None)) = Critical
   \<and> isPackageDefinition (characteristics (classifyFile rx defaultClassifierOptions
       ''package.json'' (Some packageJsonContent) None))
   \<and> 100 < score (clsImportance (classifyFile rx defaultClassifierOptions ''package.json''
       (Some packageJsonContent) None))"
  unfolding pj_classify Let_def
  by (simp add: determineCategory_def clsCategoryOfScore_def bonus_def pj_characteristics)

text \<open>The scorer of the file utilities gives the same path exactly 100.\<close>

lemma package_json_scorer: "score (calculateImportanceScore ''package.json'' c) = 100"
  by code_simp

text \<open>
  C7. With the default options and whatever the regular expressions of the host match,
  \<^verbatim>\<open>classifyFile\<close> on the path \<^verbatim>\<open>package.json\<close> with the content
  \<^verbatim>\<open>{"name":"x"}\<close> and no declared type gives the category critical, the
  characteristic \<open>isPackageDefinition\<close>, and a score above 100.
\<close>

theorem package_json_classified_critical:
  \<open>category (clsImportance (classifyFile rx defaultClassifierOptions ''package.json''
       (Some ''{"name":"x"}'') None)) = Critical
   \<and> isPackageDefinition (characteristics (classifyFile rx defaultClassifierOptions
       ''package.json'' (Some ''{"name":"x"}'') None))
   \<and> 100 < score (clsImportance (classifyFile rx defaultClassifierOptions ''package.json''
       (Some ''{"name":"x"}'') None))\<close>
  using pj_result [unfolded packageJsonContent_def] .

section \<open>The AST cache\<close>

text \<open>
  C9. After \<^verbatim>\<open>setCachedAST(p, a, t)\<close> for a timestamp \<open>t\<close>, a date with a time value
  \<open>n\<close>, in any state of the cache, \<^verbatim>\<open>getCachedAST(p, t)\<close> returns \<open>a\<close>, and
  \<^verbatim>\<open>getCachedAST(p, t')\<close> returns null for every date \<open>t'\<close> whose time value differs
  from that of \<open>t\<close>.
\<close>

theorem ast_cache_path_and_mtime:
  "fst (getCachedAST p (Date n) (setCachedAST p a (Date n) now st)) = Some a
   \<and> (getTime t' \<noteq> getTime (Date n)
        \<longrightarrow> fst (getCachedAST p t' (setCachedAST p a (Date n) now st)) = None)"
  by (cases t') (simp_all add: getCachedAST_def setCachedAST_def Let_def strictEquals_def)

theorem ast_cache_path_and_mtime_witness:
  "fst (getCachedAST ''src/a.ts'' (Date 1700)
          (setCachedAST ''src/a.ts'' (7::nat) (Date 1700) 1800
             (emptyCache :: (nat, unit) CacheState))) = Some 7
   \<and> getTime (Date 1701) \<noteq> getTime (Date 1700)
   \<and> fst (getCachedAST ''src/a.ts'' (Date 1701)
          (setCachedAST ''src/a.ts'' (7::nat) (Date 1700) 1800
             (emptyCache :: (nat, unit) CacheState))) = None"
  using ast_cache_path_and_mtime
    [of "''src/a.ts''" 1700 "7::nat" 1800 "emptyCache :: (nat, unit) CacheState" "Date 1701"]
  by simp

text \<open>
  The invalid date is not a timestamp: its time value equals nothing, so an AST stored
  under it is never returned.
\<close>

lemma invalid_date_never_hits:
  "fst (getCachedAST p t' (setCachedAST p a InvalidDate now st)) = None"
  by (simp add: getCachedAST_def setCachedAST_def Let_def strictEquals_def)

end
